theory Spec2Isabelle
  imports Complex_Main "HOL-Library.Product_Lexorder"
begin

section \<open>Data model\<close>

text \<open>
  Python floats are idealised as the reals: every amount, percentage and threshold is a
  \<open>real\<close>, so sums are exact and independent of the order of addition.
  Exceptions are values of \<open>py_error\<close>.
\<close>

datatype py_error = TypeError | AttributeError | ValueError

subsection \<open>Calendar: datetime, date, timedelta, relativedelta\<close>

text \<open>
  \<open>datetime.datetime\<close> with its seven components. Comparison of two datetimes is the
  lexicographic comparison of the components; \<open>.date()\<close> keeps year, month and day.
\<close>

record datetime =
  year :: int
  month :: int
  day :: int
  hour :: int
  minute :: int
  second :: int
  microsecond :: int

type_synonym pydate = "int \<times> int \<times> int"

definition dt_date :: "datetime \<Rightarrow> pydate" where
  "dt_date dt = (year dt, month dt, day dt)"

definition dt_key :: "datetime \<Rightarrow> int \<times> int \<times> int \<times> int \<times> int \<times> int \<times> int" where
  "dt_key dt = (year dt, month dt, day dt, hour dt, minute dt, second dt, microsecond dt)"

definition dt_le :: "datetime \<Rightarrow> datetime \<Rightarrow> bool" where
  "dt_le a b = (dt_key a \<le> dt_key b)"

definition is_leap :: "int \<Rightarrow> bool" where
  "is_leap y = (y mod 4 = 0 \<and> (y mod 100 \<noteq> 0 \<or> y mod 400 = 0))"

definition days_in_month :: "int \<Rightarrow> int \<Rightarrow> int" where
  "days_in_month y m =
     (if m = 2 then (if is_leap y then 29 else 28)
      else if m = 4 \<or> m = 6 \<or> m = 9 \<or> m = 11 then 30 else 31)"

definition valid_date :: "pydate \<Rightarrow> bool" where
  "valid_date d = (case d of (y, m, dd) \<Rightarrow> 1 \<le> m \<and> m \<le> 12 \<and> 1 \<le> dd \<and> dd \<le> days_in_month y m)"

definition next_day :: "pydate \<Rightarrow> pydate" where
  "next_day d = (case d of (y, m, dd) \<Rightarrow>
     if dd < days_in_month y m then (y, m, dd + 1)
     else if m < 12 then (y, m + 1, 1)
     else (y + 1, 1, 1))"

definition prev_day :: "pydate \<Rightarrow> pydate" where
  "prev_day d = (case d of (y, m, dd) \<Rightarrow>
     if 1 < dd then (y, m, dd - 1)
     else if 1 < m then (y, m - 1, days_in_month y (m - 1))
     else (y - 1, 12, 31))"

definition date_add_days :: "int \<Rightarrow> pydate \<Rightarrow> pydate" where
  \<comment> \<open>\<open>d + timedelta(days=n)\<close>, one calendar day at a time\<close>
  "date_add_days n d = (if 0 \<le> n then (next_day ^^ nat n) d else (prev_day ^^ nat (- n)) d)"

definition set_date :: "pydate \<Rightarrow> datetime \<Rightarrow> datetime" where
  "set_date d dt = (case d of (y, m, dd) \<Rightarrow> dt\<lparr>year := y, month := m, day := dd\<rparr>)"

definition add_days :: "int \<Rightarrow> datetime \<Rightarrow> datetime" where
  \<comment> \<open>\<open>dt + timedelta(days=n)\<close>: the time of day is kept\<close>
  "add_days n dt = set_date (date_add_days n (dt_date dt)) dt"

definition relativedelta_add :: "int \<Rightarrow> int \<Rightarrow> int \<Rightarrow> datetime \<Rightarrow> datetime" where
  \<comment> \<open>\<open>dt + relativedelta(years=ys, months=ms, days=ds)\<close> of dateutil, for \<open>0 \<le> ms \<le> 12\<close>:
      the year and month are moved first, the day is clamped to the length of the
      target month, and the days are added last\<close>
  "relativedelta_add ys ms ds dt =
     (let y0 = year dt + ys;
          m0 = month dt + ms;
          y1 = (if 12 < m0 then y0 + 1 else y0);
          m1 = (if 12 < m0 then m0 - 12 else m0);
          d1 = min (days_in_month y1 m1) (day dt)
      in add_days ds (dt\<lparr>year := y1, month := m1, day := d1\<rparr>))"

subsection \<open>Expense (models/expense.py)\<close>

record Expense =
  amount :: real
  date :: datetime
  category :: string
  vendor :: string
  payment_method :: string
  expense_id :: string
  subcategory :: string
  description :: string
  tags :: "string list"
  is_recurring :: bool
  recurring_type :: "string option"
  recurring_action :: "string option"
  next_due_date :: "datetime option"
  last_recurring_date :: "datetime option"
  recurring_parent_id :: "string option"
  is_deleted :: bool
  deleted_at :: "datetime option"
  created_at :: datetime
  updated_at :: datetime

subsection \<open>Budget (models/budget.py)\<close>

text \<open>
  The fields of the dataclass \<open>Budget\<close>, prefixed with \<open>b_\<close> because several of them
  share their names with fields of \<open>Expense\<close>.
\<close>

record Budget =
  b_category :: string
  b_amount :: real
  b_period_type :: string
  b_period_start :: datetime
  b_budget_id :: string
  b_subcategory :: string
  b_warning_threshold :: real
  b_critical_threshold :: real
  b_rollover_enabled :: bool
  b_rollover_cap_percent :: real
  b_previous_rollover :: real
  b_notes :: string
  b_is_active :: bool
  b_spent :: real
  b_rollover_amount :: real
  b_allow_rollover :: bool

definition period_end :: "Budget \<Rightarrow> datetime" where
  "period_end b =
     (if b_period_type b = ''monthly'' then relativedelta_add 0 1 (- 1) (b_period_start b)
      else if b_period_type b = ''quarterly'' then relativedelta_add 0 3 (- 1) (b_period_start b)
      else if b_period_type b = ''yearly'' then relativedelta_add 1 0 (- 1) (b_period_start b)
      else relativedelta_add 0 1 (- 1) (b_period_start b))"

definition effective_budget :: "Budget \<Rightarrow> real" where
  "effective_budget b =
     (if b_rollover_enabled b then b_amount b + b_previous_rollover b else b_amount b)"

definition get_used_percentage :: "Budget \<Rightarrow> real" where
  "get_used_percentage b = (if b_amount b \<le> 0 then 0 else b_spent b / b_amount b * 100)"



datatype Budget_status_label = Exceeded | Critical_label | Warning_label | Ok_label

definition Budget_get_status :: "Budget \<Rightarrow> real \<Rightarrow> Budget_status_label" where
  \<comment> \<open>the \<open>status\<close> entry of \<open>Budget.get_status(self, spent)\<close>, which compares with the
      budget's own thresholds\<close>
  "Budget_get_status b spent =
     (let effective = effective_budget b;
          percentage = (if 0 < effective then spent / effective * 100 else 0)
      in if 100 \<le> percentage then Exceeded
         else if b_critical_threshold b \<le> percentage then Critical_label
         else if b_warning_threshold b \<le> percentage then Warning_label
         else Ok_label)"

subsection \<open>BudgetManager (managers/budget_manager.py)\<close>

datatype BudgetStatus = UNDER_BUDGET | WARNING | CRITICAL | OVER_BUDGET

text \<open>
  The manager keeps its budgets (the values of the dictionary \<open>_budgets\<close>, in insertion
  order) and two thresholds of its own, set from the configuration constants
  \<open>WARNING_THRESHOLD = 80.0\<close> and \<open>CRITICAL_THRESHOLD = 95.0\<close> in \<open>__init__\<close>.
\<close>

record BudgetManager =
  m_budgets :: "Budget list"
  m_warning_threshold :: real
  m_critical_threshold :: real

definition BudgetManager_init :: "Budget list \<Rightarrow> BudgetManager" where
  "BudgetManager_init bs =
     \<lparr>m_budgets = bs, m_warning_threshold = 80, m_critical_threshold = 95\<rparr>"

fun calculate_spent_loop :: "Budget \<Rightarrow> Expense list \<Rightarrow> real \<Rightarrow> real" where
  "calculate_spent_loop b [] acc = acc"
| "calculate_spent_loop b (expense # rest) acc =
     (if is_deleted expense then calculate_spent_loop b rest acc
      else if category expense \<noteq> b_category b then calculate_spent_loop b rest acc
      else let expense_date = dt_date (date expense);
               start_date = dt_date (b_period_start b);
               end_date = dt_date (period_end b)
           in if start_date \<le> expense_date \<and> expense_date \<le> end_date
              then calculate_spent_loop b rest (acc + amount expense)
              else calculate_spent_loop b rest acc)"

definition calculate_spent :: "Budget \<Rightarrow> Expense list \<Rightarrow> real" where
  "calculate_spent b expenses = calculate_spent_loop b expenses 0"

definition get_budget_status :: "BudgetManager \<Rightarrow> Budget \<Rightarrow> BudgetStatus" where
  "get_budget_status m b =
     (if b_amount b \<le> 0 then UNDER_BUDGET
      else let percentage = get_used_percentage b
           in if 100 \<le> percentage then OVER_BUDGET
              else if m_critical_threshold m \<le> percentage then CRITICAL
              else if m_warning_threshold m \<le> percentage then WARNING
              else UNDER_BUDGET)"


definition get_current_budget_for_category :: "BudgetManager \<Rightarrow> pydate \<Rightarrow> string \<Rightarrow> Budget option" where
  \<comment> \<open>\<open>today\<close> stands for \<open>datetime.now().date()\<close>; the first matching budget is returned\<close>
  "get_current_budget_for_category m today cat =
     find (\<lambda>budget. b_category budget = cat
             \<and> dt_date (b_period_start budget) \<le> today \<and> today \<le> dt_date (period_end budget))
          (m_budgets m)"

text \<open>
  The alert dictionary of \<open>check_expense_against_budget\<close>, with its keys \<open>type\<close>,
  \<open>category\<close> and \<open>percentage\<close>. The key \<open>message\<close> is a display text formatted from
  the category and the percentage and is left out.
\<close>

record alert =
  alert_type :: string
  alert_category :: string
  alert_percentage :: real

definition check_expense_against_budget ::
  "BudgetManager \<Rightarrow> pydate \<Rightarrow> Expense \<Rightarrow> Expense list \<Rightarrow> alert option" where
  "check_expense_against_budget m today expense expenses =
     (case get_current_budget_for_category m today (category expense) of
        None \<Rightarrow> None
      | Some budget \<Rightarrow>
          let current_spent = calculate_spent budget expenses;
              new_spent = current_spent + amount expense;
              new_percentage = (if 0 < b_amount budget then new_spent / b_amount budget * 100 else 0);
              old_percentage = get_used_percentage budget
          in if 100 \<le> new_percentage \<and> old_percentage < 100
             then Some \<lparr>alert_type = ''over_budget'', alert_category = b_category budget,
                        alert_percentage = new_percentage\<rparr>
             else if m_critical_threshold m \<le> new_percentage \<and> old_percentage < m_critical_threshold m
             then Some \<lparr>alert_type = ''critical'', alert_category = b_category budget,
                        alert_percentage = new_percentage\<rparr>
             else if m_warning_threshold m \<le> new_percentage \<and> old_percentage < m_warning_threshold m
             then Some \<lparr>alert_type = ''warning'', alert_category = b_category budget,
                        alert_percentage = new_percentage\<rparr>
             else None)"

subsection \<open>StatisticalSummary (models/statistical_summary.py)\<close>

text \<open>
  Values passed as keyword arguments, and the fields of the dataclass
  \<open>StatisticalSummary\<close>. The dataclass declares \<open>period_start\<close> and \<open>period_end\<close> without
  a default; the fields that are containers left at their empty default by every caller
  (\<open>by_subcategory\<close>, \<open>by_vendor\<close>, \<open>by_month\<close>, \<open>by_day_of_week\<close>, \<open>trend_data\<close>,
  \<open>comparison_data\<close>, \<open>top_expenses\<close>, \<open>budget_status\<close>) are named in the field list and
  not stored in the record.
\<close>

datatype py_value =
  PyFloat real | PyInt int | PyDict "(string \<times> real) list" | PyNone | PyDatetime datetime

record StatisticalSummary =
  period_start :: "datetime option"
  period_end_field :: "datetime option"
  total_amount :: real
  expense_count :: int
  average_amount :: real
  median_amount :: real
  min_amount :: real
  max_amount :: real
  std_deviation :: real
  by_category :: "(string \<times> real) list"
  by_payment_method :: "(string \<times> real) list"
  recurring_total :: real
  recurring_count :: int

definition StatisticalSummary_fields :: "string list" where
  "StatisticalSummary_fields =
     [''period_start'', ''period_end'', ''total_amount'', ''expense_count'',
      ''average_amount'', ''median_amount'', ''min_amount'', ''max_amount'',
      ''std_deviation'', ''by_category'', ''by_subcategory'', ''by_vendor'',
      ''by_payment_method'', ''by_month'', ''by_day_of_week'', ''trend_data'',
      ''comparison_data'', ''top_expenses'', ''recurring_total'', ''recurring_count'',
      ''budget_status'']"

definition StatisticalSummary_required :: "string list" where
  "StatisticalSummary_required = [''period_start'', ''period_end'']"

definition kw_float :: "(string \<times> py_value) list \<Rightarrow> string \<Rightarrow> real \<Rightarrow> real" where
  "kw_float kwargs name dflt =
     (case map_of kwargs name of Some (PyFloat x) \<Rightarrow> x | Some (PyInt n) \<Rightarrow> of_int n | _ \<Rightarrow> dflt)"

definition kw_int :: "(string \<times> py_value) list \<Rightarrow> string \<Rightarrow> int \<Rightarrow> int" where
  "kw_int kwargs name dflt = (case map_of kwargs name of Some (PyInt n) \<Rightarrow> n | _ \<Rightarrow> dflt)"

definition kw_dict :: "(string \<times> py_value) list \<Rightarrow> string \<Rightarrow> (string \<times> real) list" where
  "kw_dict kwargs name = (case map_of kwargs name of Some (PyDict d) \<Rightarrow> d | _ \<Rightarrow> [])"

definition kw_datetime :: "(string \<times> py_value) list \<Rightarrow> string \<Rightarrow> datetime option" where
  "kw_datetime kwargs name = (case map_of kwargs name of Some (PyDatetime d) \<Rightarrow> Some d | _ \<Rightarrow> None)"

definition StatisticalSummary_init :: "(string \<times> py_value) list \<Rightarrow> py_error + StatisticalSummary" where
  \<comment> \<open>the \<open>__init__\<close> that \<open>@dataclass\<close> generates, called with keyword arguments only: a
      keyword that is not a field, or a missing field without default, raises TypeError\<close>
  "StatisticalSummary_init kwargs =
     (if \<not> list_all (\<lambda>k. k \<in> set StatisticalSummary_fields) (map fst kwargs) then Inl TypeError
      else if \<not> list_all (\<lambda>k. k \<in> set (map fst kwargs)) StatisticalSummary_required
      then Inl TypeError
      else Inr \<lparr>period_start = kw_datetime kwargs ''period_start'',
                period_end_field = kw_datetime kwargs ''period_end'',
                total_amount = kw_float kwargs ''total_amount'' 0,
                expense_count = kw_int kwargs ''expense_count'' 0,
                average_amount = kw_float kwargs ''average_amount'' 0,
                median_amount = kw_float kwargs ''median_amount'' 0,
                min_amount = kw_float kwargs ''min_amount'' 0,
                max_amount = kw_float kwargs ''max_amount'' 0,
                std_deviation = kw_float kwargs ''std_deviation'' 0,
                by_category = kw_dict kwargs ''by_category'',
                by_payment_method = kw_dict kwargs ''by_payment_method'',
                recurring_total = kw_float kwargs ''recurring_total'' 0,
                recurring_count = kw_int kwargs ''recurring_count'' 0\<rparr>)"

subsection \<open>ReportGenerator (reports/report_generator.py): basic statistics\<close>

fun totals_add :: "string \<Rightarrow> real \<Rightarrow> (string \<times> real) list \<Rightarrow> (string \<times> real) list" where
  \<comment> \<open>\<open>d[k] += a\<close> on a \<open>defaultdict(float)\<close>; the list keeps the insertion order of the keys\<close>
  "totals_add k a [] = [(k, 0 + a)]"
| "totals_add k a ((k', s) # rest) =
     (if k' = k then (k', s + a) # rest else (k', s) # totals_add k a rest)"

definition np_mean :: "real list \<Rightarrow> real" where
  "np_mean xs = sum_list xs / real (length xs)"

definition np_median :: "real list \<Rightarrow> real" where
  "np_median xs =
     (let s = sort xs; n = length s
      in if even n then (s ! (n div 2 - 1) + s ! (n div 2)) / 2 else s ! (n div 2))"

definition np_std :: "real list \<Rightarrow> real" where
  \<comment> \<open>population standard deviation\<close>
  "np_std xs = sqrt (np_mean (map (\<lambda>x. (x - np_mean xs)\<^sup>2) xs))"

definition min_datetime :: "datetime list \<Rightarrow> datetime" where
  "min_datetime ds = foldl (\<lambda>a b. if dt_key b < dt_key a then b else a) (hd ds) (tl ds)"

definition max_datetime :: "datetime list \<Rightarrow> datetime" where
  "max_datetime ds = foldl (\<lambda>a b. if dt_key a < dt_key b then b else a) (hd ds) (tl ds)"

definition calculate_basic_stats :: "Expense list \<Rightarrow> py_error + StatisticalSummary" where
  "calculate_basic_stats expenses =
     (if expenses = [] then
        StatisticalSummary_init
          [(''total_amount'', PyFloat 0), (''average_amount'', PyFloat 0),
           (''min_amount'', PyFloat 0), (''max_amount'', PyFloat 0),
           (''expense_count'', PyInt 0), (''category_totals'', PyDict []),
           (''payment_method_totals'', PyDict []), (''date_from'', PyNone),
           (''date_to'', PyNone)]
      else
        let amounts = map amount expenses;
            dates = map date expenses;
            category_totals = foldl (\<lambda>d e. totals_add (category e) (amount e) d) [] expenses;
            payment_totals = foldl (\<lambda>d e. totals_add (payment_method e) (amount e) d) [] expenses
        in StatisticalSummary_init
          [(''total_amount'', PyFloat (sum_list amounts)),
           (''average_amount'', PyFloat (np_mean amounts)),
           (''min_amount'', PyFloat (Min (set amounts))),
           (''max_amount'', PyFloat (Max (set amounts))),
           (''expense_count'', PyInt (int (length expenses))),
           (''category_totals'', PyDict category_totals),
           (''payment_method_totals'', PyDict payment_totals),
           (''date_from'', PyDatetime (min_datetime dates)),
           (''date_to'', PyDatetime (max_datetime dates)),
           (''median_amount'', PyFloat (np_median amounts)),
           (''std_deviation'', PyFloat (if 1 < length amounts then np_std amounts else 0))])"

subsection \<open>ReportGenerator: recurring expenses\<close>

text \<open>
  Attribute access on an \<open>Expense\<close> by name: the nineteen fields of the dataclass are
  its only attributes with data, and any other name raises AttributeError.
\<close>

datatype attr_value =
  FloatV real | StrV string | OptStrV "string option" | BoolV bool | TagsV "string list"
  | DatetimeV datetime | OptDatetimeV "datetime option"

definition Expense_getattr :: "string \<Rightarrow> Expense \<Rightarrow> py_error + attr_value" where
  "Expense_getattr name e =
     (if name = ''amount'' then Inr (FloatV (amount e))
      else if name = ''date'' then Inr (DatetimeV (date e))
      else if name = ''category'' then Inr (StrV (category e))
      else if name = ''vendor'' then Inr (StrV (vendor e))
      else if name = ''payment_method'' then Inr (StrV (payment_method e))
      else if name = ''expense_id'' then Inr (StrV (expense_id e))
      else if name = ''subcategory'' then Inr (StrV (subcategory e))
      else if name = ''description'' then Inr (StrV (description e))
      else if name = ''tags'' then Inr (TagsV (tags e))
      else if name = ''is_recurring'' then Inr (BoolV (is_recurring e))
      else if name = ''recurring_type'' then Inr (OptStrV (recurring_type e))
      else if name = ''recurring_action'' then Inr (OptStrV (recurring_action e))
      else if name = ''next_due_date'' then Inr (OptDatetimeV (next_due_date e))
      else if name = ''last_recurring_date'' then Inr (OptDatetimeV (last_recurring_date e))
      else if name = ''recurring_parent_id'' then Inr (OptStrV (recurring_parent_id e))
      else if name = ''is_deleted'' then Inr (BoolV (is_deleted e))
      else if name = ''deleted_at'' then Inr (OptDatetimeV (deleted_at e))
      else if name = ''created_at'' then Inr (DatetimeV (created_at e))
      else if name = ''updated_at'' then Inr (DatetimeV (updated_at e))
      else Inl AttributeError)"

definition is_str :: "attr_value \<Rightarrow> string \<Rightarrow> bool" where
  \<comment> \<open>\<open>value == 'literal'\<close>\<close>
  "is_str v lit = (v = StrV lit \<or> v = OptStrV (Some lit))"

fun estimate_loop :: "Expense list \<Rightarrow> real \<Rightarrow> py_error + real" where
  "estimate_loop [] monthly_estimate = Inr monthly_estimate"
| "estimate_loop (expense # rest) monthly_estimate =
     (case Expense_getattr ''recurring_frequency'' expense of
        Inl err \<Rightarrow> Inl err
      | Inr freq \<Rightarrow>
          if is_str freq ''daily'' then estimate_loop rest (monthly_estimate + amount expense * 30)
          else if is_str freq ''weekly'' then estimate_loop rest (monthly_estimate + amount expense * 4)
          else if is_str freq ''biweekly'' then estimate_loop rest (monthly_estimate + amount expense * 2)
          else if is_str freq ''monthly'' then estimate_loop rest (monthly_estimate + amount expense)
          else if is_str freq ''quarterly'' then estimate_loop rest (monthly_estimate + amount expense / 3)
          else if is_str freq ''annually'' then estimate_loop rest (monthly_estimate + amount expense / 12)
          else estimate_loop rest monthly_estimate)"

definition estimate_monthly_recurring :: "Expense list \<Rightarrow> py_error + real" where
  "estimate_monthly_recurring expenses =
     estimate_loop (filter (\<lambda>e. is_recurring e \<and> \<not> is_deleted e) expenses) 0"

subsection \<open>ReportGenerator: breakdowns\<close>

text \<open>
  A \<open>defaultdict\<close> whose values are dictionaries with the keys \<open>amount\<close> and \<open>count\<close> is a
  list of key, amount and count in the insertion order of the keys, which is the order
  in which Python iterates over the dictionary.
\<close>

fun group_add :: "'k \<Rightarrow> real \<Rightarrow> ('k \<times> real \<times> nat) list \<Rightarrow> ('k \<times> real \<times> nat) list" where
  \<comment> \<open>\<open>d[k]['amount'] += a; d[k]['count'] += 1\<close>\<close>
  "group_add k a [] = [(k, 0 + a, 0 + 1)]"
| "group_add k a ((k', s, c) # rest) =
     (if k' = k then (k', s + a, c + 1) # rest else (k', s, c) # group_add k a rest)"

definition sort_reverse :: "('a \<Rightarrow> real) \<Rightarrow> 'a list \<Rightarrow> 'a list" where
  \<comment> \<open>\<open>list.sort(key=f, reverse=True)\<close>: the list is reversed, sorted by a stable
      ascending sort, and reversed again\<close>
  "sort_reverse f xs = rev (sort_key f (rev xs))"

text \<open>
  A row of a breakdown. \<open>row_key\<close> is the entry \<open>category\<close> or \<open>payment_method\<close>;
  \<open>row_average\<close> is \<open>None\<close> where the dictionary has no key \<open>average\<close>.
\<close>

record breakdown_row =
  row_key :: string
  row_amount :: real
  row_count :: nat
  row_percentage :: real
  row_average :: "real option"

fun category_loop ::
  "Expense list \<Rightarrow> (string \<times> real \<times> nat) list \<times> real \<Rightarrow> (string \<times> real \<times> nat) list \<times> real" where
  "category_loop [] st = st"
| "category_loop (expense # rest) (category_data, total_amt) =
     category_loop rest
       (group_add (category expense) (amount expense) category_data, total_amt + amount expense)"

definition get_category_breakdown :: "Expense list \<Rightarrow> breakdown_row list" where
  "get_category_breakdown expenses =
     (if expenses = [] then []
      else
        let (category_data, total_amt) = category_loop expenses ([], 0);
            result = map (\<lambda>(cat, a, c).
                       \<lparr>row_key = cat, row_amount = a, row_count = c,
                        row_percentage = (if 0 < total_amt then a / total_amt * 100 else 0),
                        row_average = Some (if 0 < c then a / real c else 0)\<rparr>) category_data
        in sort_reverse row_amount result)"

definition get_payment_method_breakdown :: "Expense list \<Rightarrow> breakdown_row list" where
  "get_payment_method_breakdown expenses =
     (if expenses = [] then []
      else
        let total_amt = sum_list (map amount expenses);
            method_data = foldl (\<lambda>d e. group_add (payment_method e) (amount e) d) [] expenses;
            result = map (\<lambda>(method, a, c).
                       \<lparr>row_key = method, row_amount = a, row_count = c,
                        row_percentage = (if 0 < total_amt then a / total_amt * 100 else 0),
                        row_average = None\<rparr>) method_data
        in sort_reverse row_amount result)"

text \<open>
  The order in which the keys of a list are first seen, and the total of the amounts
  that carry a key: the vocabulary in which the breakdowns are specified.
\<close>

fun first_seen :: "'a list \<Rightarrow> 'a list" where
  "first_seen [] = []"
| "first_seen (x # xs) = x # removeAll x (first_seen xs)"

definition key_total :: "(Expense \<Rightarrow> 'k) \<Rightarrow> 'k \<Rightarrow> Expense list \<Rightarrow> real" where
  "key_total key k expenses = sum_list (map amount (filter (\<lambda>e. key e = k) expenses))"

text \<open>
  Auxiliary notions for the proofs: the grouping loop started from any dictionary, the
  amount stored under a key, and the rows of a breakdown before they are sorted.
\<close>

definition group_all ::
  "(Expense \<Rightarrow> 'k) \<Rightarrow> ('k \<times> real \<times> nat) list \<Rightarrow> Expense list \<Rightarrow> ('k \<times> real \<times> nat) list" where
  "group_all key d xs = foldl (\<lambda>d e. group_add (key e) (amount e) d) d xs"

definition amt_of :: "('k \<times> real \<times> nat) list \<Rightarrow> 'k \<Rightarrow> real" where
  "amt_of d k = (case map_of d k of None \<Rightarrow> 0 | Some (s, c) \<Rightarrow> s)"

definition cnt_of :: "('k \<times> real \<times> nat) list \<Rightarrow> 'k \<Rightarrow> nat" where
  "cnt_of d k = (case map_of d k of None \<Rightarrow> 0 | Some (s, c) \<Rightarrow> c)"

definition rows_of ::
  "(string \<times> real \<times> nat \<Rightarrow> real option) \<Rightarrow> real \<Rightarrow> (string \<times> real \<times> nat) list \<Rightarrow> breakdown_row list" where
  "rows_of avg t d = map (\<lambda>(k, a, c).
       \<lparr>row_key = k, row_amount = a, row_count = c,
        row_percentage = (if 0 < t then a / t * 100 else 0), row_average = avg (k, a, c)\<rparr>) d"


definition active_expenses :: "Expense list \<Rightarrow> Expense list" where
  \<comment> \<open>the active records: \<open>[e for e in expenses if not e.is_deleted]\<close>\<close>
  "active_expenses expenses = filter (\<lambda>e. \<not> is_deleted e) expenses"

subsection \<open>ReportGenerator: the records of a report\<close>

definition minus_one_second :: "datetime \<Rightarrow> datetime" where
  \<comment> \<open>\<open>dt - timedelta(seconds=1)\<close>\<close>
  "minus_one_second dt =
     (if 0 < second dt then dt\<lparr>second := second dt - 1\<rparr>
      else if 0 < minute dt then dt\<lparr>minute := minute dt - 1, second := 59\<rparr>
      else if 0 < hour dt then dt\<lparr>hour := hour dt - 1, minute := 59, second := 59\<rparr>
      else (add_days (- 1) dt)\<lparr>hour := 23, minute := 59, second := 59\<rparr>)"

definition month_expenses :: "datetime \<Rightarrow> Expense list \<Rightarrow> Expense list" where
  \<comment> \<open>the local list \<open>month_expenses\<close> of \<open>generate_monthly_report\<close> (the comprehension
      that follows \<open># Filter expenses for month\<close>), from which the report computes its
      sections \<open>summary\<close> to \<open>budget_status\<close>. The rest of the report is not embedded: the
      comparison with the previous month, \<open>compare_months\<close>, receives the unfiltered
      \<open>expenses\<close>\<close>
  "month_expenses mon expenses =
     (let month_start = mon\<lparr>day := 1, hour := 0, minute := 0, second := 0, microsecond := 0\<rparr>;
          month_end = minus_one_second (relativedelta_add 0 1 0 month_start)
      in filter (\<lambda>e. dt_le month_start (date e) \<and> dt_le (date e) month_end \<and> \<not> is_deleted e)
           expenses)"

definition year_expenses :: "int \<Rightarrow> Expense list \<Rightarrow> Expense list" where
  \<comment> \<open>the local list \<open>year_expenses\<close> of \<open>generate_annual_report\<close> (the comprehension
      that follows \<open># Filter expenses for year\<close>), from which the report computes its
      sections \<open>summary\<close> to \<open>by_tags\<close>. The rest of the report is not embedded: the
      comparison with the previous year, \<open>get_year_over_year\<close>, receives the unfiltered
      \<open>expenses\<close>\<close>
  "year_expenses y expenses =
     (let year_start = \<lparr>year = y, month = 1, day = 1, hour = 0, minute = 0, second = 0,
                         microsecond = 0\<rparr>;
          year_end = \<lparr>year = y, month = 12, day = 31, hour = 23, minute = 59, second = 59,
                       microsecond = 0\<rparr>
      in filter (\<lambda>e. dt_le year_start (date e) \<and> dt_le (date e) year_end \<and> \<not> is_deleted e)
           expenses)"

subsection \<open>Expense rows: to_dict and from_dict\<close>

text \<open>
  The dictionary that \<open>to_dict\<close> builds, one field per key. A cell that holds a text
  written by \<open>strftime\<close> is represented by the components that the text spells out and
  that \<open>strptime\<close> reads back under the same format: year, month and day for
  \<open>%Y-%m-%d\<close>, and these with hour, minute and second for \<open>%Y-%m-%d %H:%M:%S\<close>. An
  optional date cell is \<open>None\<close> where the dictionary holds the empty text.
\<close>

type_synonym stamp = "int \<times> int \<times> int \<times> int \<times> int \<times> int"

record expense_row =
  r_expense_id :: string
  r_amount :: real
  r_date :: pydate
  r_category :: string
  r_subcategory :: string
  r_vendor :: string
  r_payment_method :: string
  r_description :: string
  r_tags :: string
  r_is_recurring :: bool
  r_recurring_type :: string
  r_recurring_action :: string
  r_next_due_date :: "pydate option"
  r_last_recurring_date :: "pydate option"
  r_recurring_parent_id :: string
  r_is_deleted :: bool
  r_deleted_at :: "stamp option"
  r_created_at :: stamp
  r_updated_at :: stamp

definition strftime_seconds :: "datetime \<Rightarrow> stamp" where
  \<comment> \<open>\<open>dt.strftime('%Y-%m-%d %H:%M:%S')\<close>\<close>
  "strftime_seconds dt = (year dt, month dt, day dt, hour dt, minute dt, second dt)"

definition strptime_seconds :: "stamp \<Rightarrow> datetime" where
  \<comment> \<open>\<open>datetime.strptime(text, '%Y-%m-%d %H:%M:%S')\<close>\<close>
  "strptime_seconds st = (case st of (y, m, d, h, mi, sec) \<Rightarrow>
     \<lparr>year = y, month = m, day = d, hour = h, minute = mi, second = sec, microsecond = 0\<rparr>)"

definition parse_date :: "pydate \<Rightarrow> datetime" where
  \<comment> \<open>\<open>parse_date\<close> on a text in the format \<open>%Y-%m-%d\<close>, the first format it tries\<close>
  "parse_date d = (case d of (y, m, dd) \<Rightarrow>
     \<lparr>year = y, month = m, day = dd, hour = 0, minute = 0, second = 0, microsecond = 0\<rparr>)"

definition str_or :: "string \<Rightarrow> string \<Rightarrow> string" where
  \<comment> \<open>\<open>a or b\<close> on texts\<close>
  "str_or a b = (if a = [] then b else a)"

definition opt_or_empty :: "string option \<Rightarrow> string" where
  \<comment> \<open>\<open>x or ''\<close> for an optional text\<close>
  "opt_or_empty x = (case x of None \<Rightarrow> [] | Some t \<Rightarrow> t)"

definition empty_to_None :: "string \<Rightarrow> string option" where
  \<comment> \<open>\<open>x or None\<close>\<close>
  "empty_to_None t = (if t = [] then None else Some t)"

fun join_comma :: "string list \<Rightarrow> string" where
  \<comment> \<open>\<open>','.join(tags)\<close>\<close>
  "join_comma [] = []"
| "join_comma [t] = t"
| "join_comma (t # u # ts) = t @ CHR '','' # join_comma (u # ts)"

fun split_comma :: "string \<Rightarrow> string list" where
  \<comment> \<open>\<open>text.split(',')\<close>\<close>
  "split_comma [] = [[]]"
| "split_comma (c # cs) =
     (if c = CHR '','' then [] # split_comma cs
      else (case split_comma cs of w # ws \<Rightarrow> (c # w) # ws | [] \<Rightarrow> [[c]]))"

definition is_space :: "char \<Rightarrow> bool" where
  \<comment> \<open>the ASCII characters that \<open>str.strip()\<close> removes\<close>
  "is_space c = (c = CHR '' '' \<or> c = CHR 0x09 \<or> c = CHR 0x0A \<or> c = CHR 0x0B \<or> c = CHR 0x0C
                 \<or> c = CHR 0x0D \<or> c = CHR 0x1C \<or> c = CHR 0x1D \<or> c = CHR 0x1E \<or> c = CHR 0x1F)"

definition strip :: "string \<Rightarrow> string" where
  "strip t = rev (dropWhile is_space (rev (dropWhile is_space t)))"

definition parse_tags :: "string \<Rightarrow> string list" where
  \<comment> \<open>\<open>[t.strip() for t in tags.split(',') if t.strip()]\<close>\<close>
  "parse_tags t = map strip (filter (\<lambda>w. strip w \<noteq> []) (split_comma t))"

definition to_dict :: "Expense \<Rightarrow> expense_row" where
  "to_dict e =
     \<lparr>r_expense_id = expense_id e,
      r_amount = amount e,
      r_date = dt_date (date e),
      r_category = category e,
      r_subcategory = str_or (subcategory e) [],
      r_vendor = vendor e,
      r_payment_method = payment_method e,
      r_description = str_or (description e) [],
      r_tags = (if tags e \<noteq> [] then join_comma (tags e) else []),
      r_is_recurring = is_recurring e,
      r_recurring_type = opt_or_empty (recurring_type e),
      r_recurring_action = opt_or_empty (recurring_action e),
      r_next_due_date = map_option dt_date (next_due_date e),
      r_last_recurring_date = map_option dt_date (last_recurring_date e),
      r_recurring_parent_id = opt_or_empty (recurring_parent_id e),
      r_is_deleted = is_deleted e,
      r_deleted_at = map_option strftime_seconds (deleted_at e),
      r_created_at = strftime_seconds (created_at e),
      r_updated_at = strftime_seconds (updated_at e)\<rparr>"

definition from_dict :: "string \<Rightarrow> expense_row \<Rightarrow> Expense" where
  \<comment> \<open>\<open>fresh_uuid\<close> stands for \<open>str(uuid.uuid4())\<close>, which is not empty\<close>
  "from_dict fresh_uuid data =
     \<lparr>amount = r_amount data,
      date = parse_date (r_date data),
      category = r_category data,
      vendor = r_vendor data,
      payment_method = r_payment_method data,
      expense_id = str_or (r_expense_id data) fresh_uuid,
      subcategory = r_subcategory data,
      description = r_description data,
      tags = parse_tags (r_tags data),
      is_recurring = (r_is_recurring data \<or> False),
      recurring_type = empty_to_None (r_recurring_type data),
      recurring_action = empty_to_None (r_recurring_action data),
      next_due_date = map_option parse_date (r_next_due_date data),
      last_recurring_date = map_option parse_date (r_last_recurring_date data),
      recurring_parent_id = empty_to_None (r_recurring_parent_id data),
      is_deleted = (r_is_deleted data \<or> False),
      deleted_at = map_option strptime_seconds (r_deleted_at data),
      created_at = strptime_seconds (r_created_at data),
      updated_at = strptime_seconds (r_updated_at data)\<rparr>"

definition validate :: "datetime \<Rightarrow> Expense \<Rightarrow> string list" where
  \<comment> \<open>\<open>Expense.validate\<close>, with \<open>now\<close> for \<open>datetime.now()\<close>\<close>
  "validate now e =
     (if amount e \<le> 0 then [''Amount must be positive''] else [])
     @ (if 10000000 < amount e then [''Amount cannot exceed 10,000,000''] else [])
     @ (if category e = [] then [''Category is required''] else [])
     @ (if vendor e = [] then [''Vendor is required''] else [])
     @ (if payment_method e = [] then [''Payment method is required''] else [])
     @ (if dt_key now < dt_key (date e) then [''Date cannot be in the future''] else [])
     @ (if is_recurring e
        then (if recurring_type e = None \<or> recurring_type e = Some []
              then [''Recurring type is required for recurring expenses''] else [])
           @ (if recurring_action e = None \<or> recurring_action e = Some []
              then [''Recurring action is required for recurring expenses''] else [])
        else [])"

text \<open>Truncation of a datetime to its day and to whole seconds; a tag that survives
  joining and splitting.\<close>

definition to_day :: "datetime \<Rightarrow> datetime" where
  "to_day dt = dt\<lparr>hour := 0, minute := 0, second := 0, microsecond := 0\<rparr>"

definition to_second :: "datetime \<Rightarrow> datetime" where
  "to_second dt = dt\<lparr>microsecond := 0\<rparr>"

definition plain_tag :: "string \<Rightarrow> bool" where
  "plain_tag t = (t \<noteq> [] \<and> CHR '','' \<notin> set t \<and> \<not> is_space (hd t) \<and> \<not> is_space (last t))"

subsection \<open>ReportGenerator: trends\<close>

text \<open>
  A row of a trend: its key, the amount and the count. The key of a month is the pair of
  year and month that \<open>strftime('%Y-%m')\<close> spells out, the key of a day is the date that
  \<open>strftime('%Y-%m-%d')\<close> spells out; the entries \<open>month_name\<close> and \<open>day_name\<close> are display
  texts of the same datetime and are left out. \<open>now\<close> stands for \<open>datetime.now()\<close>.
\<close>

record 'k trend_row =
  t_key :: 'k
  t_amount :: real
  t_count :: nat

definition dict_get :: "('k \<times> real \<times> nat) list \<Rightarrow> 'k \<Rightarrow> real \<times> nat" where
  \<comment> \<open>\<open>data.get(key, {'amount': 0.0, 'count': 0})\<close>\<close>
  "dict_get d k = (case map_of d k of None \<Rightarrow> (0, 0) | Some v \<Rightarrow> v)"

definition month_key :: "datetime \<Rightarrow> int \<times> int" where
  "month_key dt = (year dt, month dt)"

function monthly_loop ::
  "((int \<times> int) \<times> real \<times> nat) list \<Rightarrow> datetime \<Rightarrow> datetime \<Rightarrow> (int \<times> int) trend_row list
     \<Rightarrow> py_error + (int \<times> int) trend_row list" where
  "monthly_loop monthly_data current end_date result =
     (if dt_le current end_date then
        let data = dict_get monthly_data (month_key current);
            result' = result @ [\<lparr>t_key = month_key current, t_amount = fst data, t_count = snd data\<rparr>]
        in if month current = 12
           then monthly_loop monthly_data (current\<lparr>year := year current + 1, month := 1\<rparr>)
                  end_date result'
           else if 1 \<le> month current + 1 \<and> month current + 1 \<le> 12
           then monthly_loop monthly_data (current\<lparr>month := month current + 1\<rparr>) end_date result'
           else Inl ValueError
      else Inr result)"
  by pat_completeness auto
termination
  by (relation "measures [\<lambda>(d, c, e, r). nat (year e - year c + 1), \<lambda>(d, c, e, r). nat (12 - month c)]")
     (auto simp: dt_le_def dt_key_def)

declare monthly_loop.simps [simp del]

definition get_monthly_trend ::
  "datetime \<Rightarrow> Expense list \<Rightarrow> int \<Rightarrow> py_error + (int \<times> int) trend_row list" where
  "get_monthly_trend now expenses months =
     (if expenses = [] then Inr []
      else
        let end_date = now;
            start_date = add_days (- (months * 30)) end_date;
            filtered = filter (\<lambda>e. dt_le start_date (date e)) expenses;
            monthly_data = foldl (\<lambda>d e. group_add (month_key (date e)) (amount e) d) [] filtered
        in monthly_loop monthly_data (start_date\<lparr>day := 1\<rparr>) end_date [])"

partial_function (option) daily_loop ::
  "(pydate \<times> real \<times> nat) list \<Rightarrow> datetime \<Rightarrow> datetime \<Rightarrow> pydate trend_row list
     \<Rightarrow> pydate trend_row list option" where
  "daily_loop daily_data current end_date result =
     (if dt_le current end_date then
        daily_loop daily_data (add_days 1 current) end_date
          (result @ [\<lparr>t_key = dt_date current,
                      t_amount = fst (dict_get daily_data (dt_date current)),
                      t_count = snd (dict_get daily_data (dt_date current))\<rparr>])
      else Some result)"

definition get_daily_trend :: "datetime \<Rightarrow> Expense list \<Rightarrow> int \<Rightarrow> pydate trend_row list option" where
  \<comment> \<open>\<open>None\<close> is a loop that does not end\<close>
  "get_daily_trend now expenses days =
     (if expenses = [] then Some []
      else
        let end_date = now;
            start_date = add_days (- days) end_date;
            filtered = filter (\<lambda>e. dt_le start_date (date e)) expenses;
            daily_data = foldl (\<lambda>d e. group_add (dt_date (date e)) (amount e) d) [] filtered
        in daily_loop daily_data start_date end_date [])"

definition get_weekly_trend ::
  "(datetime \<Rightarrow> 'w::linorder) \<Rightarrow> datetime \<Rightarrow> Expense list \<Rightarrow> int \<Rightarrow> 'w trend_row list" where
  \<comment> \<open>\<open>week_key\<close> stands for \<open>strftime('%Y-W%W')\<close>; the rows are those of the keys that
      occur, in ascending order\<close>
  "get_weekly_trend week_key now expenses weeks =
     (if expenses = [] then []
      else
        let end_date = now;
            start_date = add_days (- (weeks * 7)) end_date;
            filtered = filter (\<lambda>e. dt_le start_date (date e)) expenses;
            weekly_data = foldl (\<lambda>d e. group_add (week_key (date e)) (amount e) d) [] filtered
        in map (\<lambda>k. \<lparr>t_key = k, t_amount = fst (dict_get weekly_data k),
                      t_count = snd (dict_get weekly_data k)\<rparr>)
             (sort (map fst weekly_data)))"

text \<open>
  The vocabulary of the trend properties: the bucket of a key over a list of records,
  the records of the window, and the numbering of the months.
\<close>

definition bucket :: "(Expense \<Rightarrow> 'k) \<Rightarrow> Expense list \<Rightarrow> 'k \<Rightarrow> 'k trend_row" where
  "bucket key xs k =
     \<lparr>t_key = k, t_amount = key_total key k xs, t_count = length (filter (\<lambda>e. key e = k) xs)\<rparr>"

definition in_window :: "datetime \<Rightarrow> Expense list \<Rightarrow> Expense list" where
  "in_window start_date xs = filter (\<lambda>e. dt_le start_date (date e)) xs"

definition time_of_day :: "datetime \<Rightarrow> int \<times> int \<times> int \<times> int" where
  "time_of_day dt = (hour dt, minute dt, second dt, microsecond dt)"

definition row_of :: "('k \<times> real \<times> nat) list \<Rightarrow> 'k \<Rightarrow> 'k trend_row" where
  \<comment> \<open>the row that the trend loops append for a key\<close>
  "row_of d k = \<lparr>t_key = k, t_amount = fst (dict_get d k), t_count = snd (dict_get d k)\<rparr>"

definition month_index :: "datetime \<Rightarrow> int" where
  "month_index dt = 12 * year dt + month dt"

definition month_of_index :: "int \<Rightarrow> int \<times> int" where
  "month_of_index i = ((i - 1) div 12, (i - 1) mod 12 + 1)"

subsection \<open>ReportGenerator: aggregations that test the deletion flag\<close>

record recurring_summary =
  rec_count :: nat
  rec_total :: real
  rec_percentage :: real
  nonrec_count :: nat
  nonrec_total :: real
  nonrec_percentage :: real
  rec_overall :: real

definition get_recurring_expense_summary :: "Expense list \<Rightarrow> recurring_summary" where
  "get_recurring_expense_summary expenses =
     (let recurring = filter (\<lambda>e. is_recurring e \<and> \<not> is_deleted e) expenses;
          non_recurring = filter (\<lambda>e. \<not> is_recurring e \<and> \<not> is_deleted e) expenses;
          recurring_total = sum_list (map amount recurring);
          non_recurring_total = sum_list (map amount non_recurring);
          overall = recurring_total + non_recurring_total
      in \<lparr>rec_count = length recurring, rec_total = recurring_total,
          rec_percentage = (if 0 < overall then recurring_total / overall * 100 else 0),
          nonrec_count = length non_recurring, nonrec_total = non_recurring_total,
          nonrec_percentage = (if 0 < overall then non_recurring_total / overall * 100 else 0),
          rec_overall = overall\<rparr>)"

record budget_vs_actual =
  bva_category :: string
  bva_budget :: real
  bva_actual :: real
  bva_variance :: real
  bva_variance_percentage :: real
  bva_used_percentage :: real
  bva_status :: string
  bva_period_start :: datetime
  bva_period_end :: datetime

definition get_budget_vs_actual :: "Expense list \<Rightarrow> Budget list \<Rightarrow> budget_vs_actual list" where
  "get_budget_vs_actual expenses budgets =
     map (\<lambda>budget.
        let budget_expenses =
              filter (\<lambda>e. category e = b_category budget
                        \<and> dt_le (b_period_start budget) (date e)
                        \<and> dt_le (date e) (period_end budget)
                        \<and> \<not> is_deleted e) expenses;
            actual = sum_list (map amount budget_expenses);
            variance = b_amount budget - actual
        in \<lparr>bva_category = b_category budget, bva_budget = b_amount budget, bva_actual = actual,
            bva_variance = variance,
            bva_variance_percentage =
              (if 0 < b_amount budget then variance / b_amount budget * 100 else 0),
            bva_used_percentage =
              (if 0 < b_amount budget then actual / b_amount budget * 100 else 0),
            bva_status = (if b_amount budget < actual then ''over'' else ''under''),
            bva_period_start = b_period_start budget, bva_period_end = period_end budget\<rparr>)
       budgets"

subsection \<open>Sample values\<close>

definition jan1 :: datetime where
  "jan1 = \<lparr>year = 2024, month = 1, day = 1, hour = 0, minute = 0, second = 0, microsecond = 0\<rparr>"

definition sample_budget :: Budget where
  "sample_budget =
     \<lparr>b_category = ''Supplies'', b_amount = 1000, b_period_type = ''monthly'',
      b_period_start = jan1, b_budget_id = ''b1'', b_subcategory = [],
      b_warning_threshold = 80, b_critical_threshold = 95, b_rollover_enabled = True,
      b_rollover_cap_percent = 50, b_previous_rollover = 0, b_notes = [],
      b_is_active = True, b_spent = 750, b_rollover_amount = 0, b_allow_rollover = True\<rparr>"

definition custom_budget :: Budget where
  \<comment> \<open>thresholds of its own, 50 and 70, and 600 of 1000 spent\<close>
  "custom_budget =
     sample_budget\<lparr>b_warning_threshold := 50, b_critical_threshold := 70, b_spent := 600\<rparr>"

definition sample_expense :: "real \<Rightarrow> int \<Rightarrow> Expense" where
  "sample_expense a d =
     \<lparr>amount = a, date = jan1\<lparr>day := d, hour := 10\<rparr>, category = ''Supplies'',
      vendor = ''Vendor'', payment_method = ''Cash'', expense_id = ''e1'', subcategory = [],
      description = [], tags = [], is_recurring = False, recurring_type = None,
      recurring_action = None, next_due_date = None, last_recurring_date = None,
      recurring_parent_id = None, is_deleted = False, deleted_at = None,
      created_at = jan1, updated_at = jan1\<rparr>"


definition recurring_expense :: Expense where
  \<comment> \<open>an active recurring expense of 100 a month\<close>
  "recurring_expense =
     (sample_expense 100 5)\<lparr>is_recurring := True, recurring_type := Some ''monthly'',
        recurring_action := Some ''reminder''\<rparr>"

definition spec_example :: "Expense list" where
  \<comment> \<open>Supplies 100, Supplies 200, Equipment 50\<close>
  "spec_example =
     [sample_expense 100 2, sample_expense 200 3, (sample_expense 50 4)\<lparr>category := ''Equipment''\<rparr>]"

definition deleted_expense :: Expense where
  "deleted_expense = (sample_expense 40 6)\<lparr>is_deleted := True, deleted_at := Some jan1\<rparr>"

definition stamped_expense :: Expense where
  \<comment> \<open>created a quarter of a second after midnight\<close>
  "stamped_expense = (sample_expense 100 2)\<lparr>created_at := jan1\<lparr>microsecond := 250000\<rparr>,
      tags := [''vip'', ''monthly order'']\<rparr>"

definition march2 :: datetime where
  \<comment> \<open>2 March 2024, half past nine\<close>
  "march2 = \<lparr>year = 2024, month = 3, day = 2, hour = 9, minute = 30, second = 0, microsecond = 0\<rparr>"

definition stale_budget :: Budget where
  \<comment> \<open>the budget as loaded: \<open>spent\<close> is not persisted and starts at 0\<close>
  "stale_budget = sample_budget\<lparr>b_spent := 0\<rparr>"

definition own_threshold_budget :: Budget where
  \<comment> \<open>thresholds of its own, 50 and 70, and 400 of 1000 spent\<close>
  "own_threshold_budget =
     sample_budget\<lparr>b_warning_threshold := 50, b_critical_threshold := 70, b_spent := 400\<rparr>"

section \<open>Properties\<close>

lemma calculate_spent_loop_sum:
  "calculate_spent_loop b xs acc =
     acc + sum_list (map amount (filter (\<lambda>e. \<not> is_deleted e \<and> category e = b_category b
        \<and> dt_date (b_period_start b) \<le> dt_date (date e)
        \<and> dt_date (date e) \<le> dt_date (period_end b)) xs))"
  by (induction xs arbitrary: acc) (simp_all add: Let_def)

text \<open>
  C6. \<open>calculate_spent\<close> returns exactly the sum of the amounts of the expenses that are
  not deleted, carry the budget's category, and whose date (time of day dropped) lies
  between the date of the period start and the date of the period end, both included.
  The function reads nothing but its two arguments and returns a value only, so equal
  arguments give equal results.
\<close>

theorem calculate_spent_is_scoped_sum:
  "calculate_spent b expenses =
     sum_list (map amount (filter (\<lambda>e. \<not> is_deleted e \<and> category e = b_category b
        \<and> dt_date (b_period_start b) \<le> dt_date (date e)
        \<and> dt_date (date e) \<le> dt_date (period_end b)) expenses))"
  by (simp add: calculate_spent_def calculate_spent_loop_sum)

lemma sample_period_end: "dt_date (period_end sample_budget) = (2024, 1, 31)"
  by (simp add: period_end_def sample_budget_def jan1_def relativedelta_add_def add_days_def
      date_add_days_def set_date_def dt_date_def prev_day_def days_in_month_def)



text \<open>
  C3. \<open>BudgetManager.get_budget_status\<close> compares the used percentage with the
  thresholds of the manager (80 and 95 after \<open>__init__\<close>), not with the thresholds stored
  in the budget. A budget with warning threshold 50 and critical threshold 70 that is
  used to 60 percent is reported as under budget, where by its own thresholds it is in
  the warning band; \<open>Budget.get_status\<close>, which reads the budget's thresholds, says
  warning.
\<close>

theorem get_budget_status_ignores_budget_thresholds:
  "get_budget_status (BudgetManager_init [custom_budget]) custom_budget = UNDER_BUDGET
   \<and> get_used_percentage custom_budget = 60
   \<and> b_warning_threshold custom_budget \<le> get_used_percentage custom_budget
   \<and> get_used_percentage custom_budget < b_critical_threshold custom_budget
   \<and> Budget_get_status (custom_budget\<lparr>b_rollover_enabled := False\<rparr>) (b_spent custom_budget)
       = Warning_label"
  by (simp add: get_budget_status_def BudgetManager_init_def get_used_percentage_def
      custom_budget_def sample_budget_def Budget_get_status_def effective_budget_def)

lemma get_budget_status_manager_bands:
  assumes "m_warning_threshold m \<le> m_critical_threshold m" and "m_critical_threshold m \<le> 100"
  shows "(b_amount b \<le> 0 \<longrightarrow> get_budget_status m b = UNDER_BUDGET)
    \<and> (0 < b_amount b \<longrightarrow>
         (get_budget_status m b = UNDER_BUDGET \<longleftrightarrow> get_used_percentage b < m_warning_threshold m)
       \<and> (get_budget_status m b = WARNING \<longleftrightarrow>
            m_warning_threshold m \<le> get_used_percentage b
            \<and> get_used_percentage b < m_critical_threshold m)
       \<and> (get_budget_status m b = CRITICAL \<longleftrightarrow>
            m_critical_threshold m \<le> get_used_percentage b \<and> get_used_percentage b < 100)
       \<and> (get_budget_status m b = OVER_BUDGET \<longleftrightarrow> 100 \<le> get_used_percentage b))"
  using assms by (auto simp: get_budget_status_def Let_def)

lemma period_end_spent: "period_end (b\<lparr>b_spent := v\<rparr>) = period_end b"
  by (simp add: period_end_def)

lemma period_end_thresholds:
  "period_end (b\<lparr>b_warning_threshold := w, b_critical_threshold := c, b_spent := v\<rparr>) = period_end b"
  by (simp add: period_end_def)

lemma stale_period_end: "dt_date (period_end stale_budget) = (2024, 1, 31)"
  by (simp only: stale_budget_def period_end_spent sample_period_end)

lemma own_period_end: "dt_date (period_end own_threshold_budget) = (2024, 1, 31)"
  by (simp only: own_threshold_budget_def period_end_thresholds sample_period_end)

text \<open>
  C4. \<open>check_expense_against_budget\<close> computes the new percentage from the spend of the
  existing expenses plus the candidate's amount, but it reads the old percentage from
  the field \<open>spent\<close> cached in the budget, and it compares both with the thresholds of the
  manager. With \<open>spent\<close> at 0 (the field is not persisted, so this is the budget as
  loaded), existing expenses of 900 on a budget of 1000 and a candidate of 10, the
  function reports a warning at 91 percent, although the current spend of 90 percent had
  reached the warning boundary of 80 before. With thresholds of its own at 50 and 70, a
  budget that goes from 40 to 60 percent gets no alert.
\<close>

theorem check_expense_uses_cached_spent:
  "calculate_spent stale_budget [sample_expense 500 3, sample_expense 400 10] = 900
   \<and> get_used_percentage stale_budget = 0
   \<and> check_expense_against_budget (BudgetManager_init [stale_budget]) (2024, 1, 20)
        (sample_expense 10 20) [sample_expense 500 3, sample_expense 400 10]
      = Some \<lparr>alert_type = ''warning'', alert_category = ''Supplies'', alert_percentage = 91\<rparr>
   \<and> calculate_spent own_threshold_budget [sample_expense 400 3] = 400
   \<and> get_used_percentage own_threshold_budget = 40
   \<and> b_warning_threshold own_threshold_budget = 50
   \<and> check_expense_against_budget (BudgetManager_init [own_threshold_budget]) (2024, 1, 20)
        (sample_expense 200 20) [sample_expense 400 3] = None"
proof -
  have s1: "calculate_spent stale_budget [sample_expense 500 3, sample_expense 400 10] = 900"
    using stale_period_end
    by (simp add: calculate_spent_def sample_expense_def Let_def)
       (simp add: stale_budget_def sample_budget_def jan1_def dt_date_def)
  have s2: "calculate_spent own_threshold_budget [sample_expense 400 3] = 400"
    using own_period_end
    by (simp add: calculate_spent_def sample_expense_def Let_def)
       (simp add: own_threshold_budget_def sample_budget_def jan1_def dt_date_def)
  have u1: "get_used_percentage stale_budget = 0"
    by (simp add: get_used_percentage_def stale_budget_def sample_budget_def)
  have u2: "get_used_percentage own_threshold_budget = 40"
    by (simp add: get_used_percentage_def own_threshold_budget_def sample_budget_def)
  have f1: "get_current_budget_for_category (BudgetManager_init [stale_budget]) (2024, 1, 20)
      (category (sample_expense 10 20)) = Some stale_budget"
    using stale_period_end
    by (simp add: get_current_budget_for_category_def BudgetManager_init_def sample_expense_def)
       (simp add: stale_budget_def sample_budget_def jan1_def dt_date_def)
  have f2: "get_current_budget_for_category (BudgetManager_init [own_threshold_budget])
      (2024, 1, 20) (category (sample_expense 200 20)) = Some own_threshold_budget"
    using own_period_end
    by (simp add: get_current_budget_for_category_def BudgetManager_init_def sample_expense_def)
       (simp add: own_threshold_budget_def sample_budget_def jan1_def dt_date_def)
  have a1: "b_amount stale_budget = 1000" "b_category stale_budget = ''Supplies''"
    "b_amount own_threshold_budget = 1000" "amount (sample_expense 10 20) = 10"
    "amount (sample_expense 200 20) = 200"
    "b_warning_threshold own_threshold_budget = 50"
    by (simp_all add: stale_budget_def own_threshold_budget_def sample_budget_def
        sample_expense_def)
  have r1: "check_expense_against_budget (BudgetManager_init [stale_budget]) (2024, 1, 20)
        (sample_expense 10 20) [sample_expense 500 3, sample_expense 400 10]
      = Some \<lparr>alert_type = ''warning'', alert_category = ''Supplies'', alert_percentage = 91\<rparr>"
    by (simp add: check_expense_against_budget_def f1 s1 u1 a1 Let_def)
       (simp add: BudgetManager_init_def)
  have r2: "check_expense_against_budget (BudgetManager_init [own_threshold_budget]) (2024, 1, 20)
        (sample_expense 200 20) [sample_expense 400 3] = None"
    by (simp add: check_expense_against_budget_def f2 s2 u2 a1 Let_def)
       (simp add: BudgetManager_init_def)
  from s1 s2 u1 u2 r1 r2 a1(6) show ?thesis by simp
qed

lemma recurring_frequency_missing: "Expense_getattr ''recurring_frequency'' e = Inl AttributeError"
  by (simp add: Expense_getattr_def)

lemma estimate_loop_raises: "xs \<noteq> [] \<Longrightarrow> estimate_loop xs acc = Inl AttributeError"
  by (cases xs) (simp_all add: recurring_frequency_missing)

lemma estimate_monthly_recurring_cases:
  "estimate_monthly_recurring xs =
     (if filter (\<lambda>e. is_recurring e \<and> \<not> is_deleted e) xs = [] then Inr 0 else Inl AttributeError)"
  by (simp add: estimate_monthly_recurring_def estimate_loop_raises)

text \<open>
  C1. \<open>calculate_basic_stats\<close> builds its result with the keywords \<open>category_totals\<close>,
  \<open>payment_method_totals\<close>, \<open>date_from\<close> and \<open>date_to\<close>, which are not fields of
  \<open>StatisticalSummary\<close>, and without the required \<open>period_start\<close> and \<open>period_end\<close>. The
  constructor raises TypeError on every input, the empty list included, so no summary
  of zeros is returned.
\<close>

theorem calculate_basic_stats_raises:
  "calculate_basic_stats [] = Inl TypeError \<and> calculate_basic_stats expenses = Inl TypeError"
  by (simp add: calculate_basic_stats_def StatisticalSummary_init_def
      StatisticalSummary_fields_def Let_def)

text \<open>
  C9. \<open>estimate_monthly_recurring\<close> reads the attribute \<open>recurring_frequency\<close>, which an
  \<open>Expense\<close> does not have (the frequency is the field \<open>recurring_type\<close>). For a list with
  one active expense recurring monthly with amount 100 the function raises
  AttributeError, where the monthly equivalent is 100.
\<close>

theorem estimate_monthly_recurring_raises:
  "is_recurring recurring_expense \<and> \<not> is_deleted recurring_expense
   \<and> recurring_type recurring_expense = Some ''monthly'' \<and> amount recurring_expense = 100
   \<and> estimate_monthly_recurring [recurring_expense] = Inl AttributeError"
  by (simp add: estimate_monthly_recurring_def recurring_frequency_missing)
     (simp add: recurring_expense_def sample_expense_def)

subsection \<open>Breakdowns\<close>

lemma group_add_keys:
  "map fst (group_add k a d) = (if k \<in> set (map fst d) then map fst d else map fst d @ [k])"
  by (induction d) force+

lemma group_add_sum:
  "sum_list (map (\<lambda>x. fst (snd x)) (group_add k a d)) = sum_list (map (\<lambda>x. fst (snd x)) d) + a"
  by (induction d) auto

lemma group_add_map_of:
  "map_of (group_add k a d) =
     (map_of d)(k \<mapsto> (case map_of d k of None \<Rightarrow> (a, 1) | Some (s, c) \<Rightarrow> (s + a, c + 1)))"
  by (induction d) (auto simp: fun_eq_iff)

lemma group_all_Cons: "group_all key d (x # xs) = group_all key (group_add (key x) (amount x) d) xs"
  by (simp add: group_all_def)

lemma group_all_keys:
  "map fst (group_all key d xs) =
     map fst d @ filter (\<lambda>k. k \<notin> set (map fst d)) (first_seen (map key xs))"
proof (induction xs arbitrary: d)
  case Nil
  then show ?case by (simp add: group_all_def)
next
  case (Cons x xs)
  show ?case
    unfolding group_all_Cons Cons.IH
    by (auto simp: group_add_keys removeAll_filter_not_eq intro!: filter_cong)
qed

lemma group_all_sum:
  "sum_list (map (\<lambda>x. fst (snd x)) (group_all key d xs)) =
     sum_list (map (\<lambda>x. fst (snd x)) d) + sum_list (map amount xs)"
  by (induction xs arbitrary: d) (simp_all add: group_all_def group_add_sum)

lemma amt_of_group_add:
  "amt_of (group_add k' a d) k = (if k = k' then amt_of d k + a else amt_of d k)"
  by (simp add: amt_of_def group_add_map_of split: option.splits)

lemma group_all_amt: "amt_of (group_all key d xs) k = amt_of d k + key_total key k xs"
proof (induction xs arbitrary: d)
  case Nil
  then show ?case by (simp add: group_all_def key_total_def)
next
  case (Cons x xs)
  show ?case
    unfolding group_all_Cons Cons.IH
    by (simp add: amt_of_group_add key_total_def)
qed

lemma sum_list_insort_key:
  "sum_list (map f (insort_key g x xs)) = f x + sum_list (map f xs)"
  for f :: "'a \<Rightarrow> real" and g :: "'a \<Rightarrow> real"
  by (induction xs) simp_all

lemma sum_list_sort_key:
  "sum_list (map f (sort_key g xs)) = sum_list (map f xs)"
  for f :: "'a \<Rightarrow> real" and g :: "'a \<Rightarrow> real"
  by (induction xs) (simp_all add: sum_list_insort_key)

lemma sum_list_sort_reverse:
  "sum_list (map f (sort_reverse g xs)) = sum_list (map f xs)"
  for f :: "'a \<Rightarrow> real"
proof -
  have "sum_list (map f (sort_reverse g xs)) = sum_list (rev (map f (sort_key g (rev xs))))"
    by (simp add: sort_reverse_def rev_map)
  also have "\<dots> = sum_list (map f (rev xs))"
    by (simp only: sum_list_rev sum_list_sort_key)
  also have "\<dots> = sum_list (map f xs)"
    by (simp only: rev_map [symmetric] sum_list_rev)
  finally show ?thesis .
qed

lemma sort_reverse_descending:
  "sorted_wrt (\<lambda>r r'. g r' \<le> g r) (sort_reverse g xs)"
proof -
  have "sorted (map g (sort_key g (rev xs)))" by simp
  then have "sorted_wrt (\<lambda>r r'. g r \<le> g r') (sort_key g (rev xs))"
    by (simp add: sorted_map)
  then show ?thesis
    by (simp add: sort_reverse_def sorted_wrt_rev)
qed

lemma sort_reverse_stable:
  "filter (\<lambda>r. g r = v) (sort_reverse g xs) = filter (\<lambda>r. g r = v) xs"
proof -
  have "filter (\<lambda>r. g r = v) (sort_reverse g xs) = rev (filter (\<lambda>r. g r = v) (sort_key g (rev xs)))"
    by (simp add: sort_reverse_def rev_filter)
  also have "\<dots> = rev (filter (\<lambda>r. g r = v) (rev xs))"
    by (simp only: sort_key_stable)
  also have "\<dots> = filter (\<lambda>r. g r = v) xs"
    by (simp add: rev_filter)
  finally show ?thesis .
qed

lemma set_first_seen: "set (first_seen xs) = set xs"
  by (induction xs) auto

lemma distinct_first_seen: "distinct (first_seen xs)"
  by (induction xs) (simp_all add: distinct_removeAll)

lemma group_all_empty_keys: "map fst (group_all key [] xs) = first_seen (map key xs)"
  by (simp add: group_all_keys)

lemma group_all_entry_amount:
  assumes "(k, s, c) \<in> set (group_all key [] xs)"
  shows "s = key_total key k xs"
proof -
  have "distinct (map fst (group_all key [] xs))"
    by (simp add: group_all_empty_keys distinct_first_seen)
  with assms have "map_of (group_all key [] xs) k = Some (s, c)"
    by simp
  then have "amt_of (group_all key [] xs) k = s"
    by (simp add: amt_of_def)
  moreover have "amt_of (group_all key [] xs) k = amt_of [] k + key_total key k xs"
    by (rule group_all_amt)
  ultimately show ?thesis
    by (simp add: amt_of_def)
qed

lemma category_loop_group_all:
  "category_loop xs (d, t) = (group_all category d xs, t + sum_list (map amount xs))"
  by (induction xs arbitrary: d t) (simp_all add: group_all_def)

lemma rows_of_keys: "map row_key (rows_of avg t d) = map fst d"
  by (simp add: rows_of_def split_def)

lemma rows_of_percentages:
  "sum_list (map row_percentage (rows_of avg t d)) =
     (if 0 < t then sum_list (map (\<lambda>x. fst (snd x)) d) / t * 100 else 0)"
proof -
  have "sum_list (map row_percentage (rows_of avg t d)) =
      sum_list (map (\<lambda>x. (if 0 < t then fst (snd x) / t * 100 else 0)) d)"
    by (simp add: rows_of_def split_def comp_def)
  also have "\<dots> = (if 0 < t then sum_list (map (\<lambda>x. fst (snd x)) d) / t * 100 else 0)"
    by (induction d) (auto simp: add_divide_distrib distrib_right)
  finally show ?thesis .
qed

lemma rows_of_filter_keys:
  "map row_key (filter (\<lambda>r. row_amount r = v) (rows_of avg t (group_all key [] xs))) =
     filter (\<lambda>k. key_total key k xs = v) (first_seen (map key xs))"
proof -
  have "map row_key (filter (\<lambda>r. row_amount r = v) (rows_of avg t (group_all key [] xs))) =
      map fst (filter (\<lambda>x. fst (snd x) = v) (group_all key [] xs))"
    by (simp add: rows_of_def filter_map comp_def split_def)
  also have "\<dots> = map fst (filter (\<lambda>x. key_total key (fst x) xs = v) (group_all key [] xs))"
    by (rule arg_cong [where f = "map fst"], rule filter_cong) (auto dest: group_all_entry_amount)
  also have "\<dots> = filter (\<lambda>k. key_total key k xs = v) (map fst (group_all key [] xs))"
    by (simp add: filter_map comp_def split_def)
  finally show ?thesis
    by (simp add: group_all_empty_keys)
qed

lemma breakdown_core:
  fixes xs :: "Expense list" and key :: "Expense \<Rightarrow> string"
    and avg :: "string \<times> real \<times> nat \<Rightarrow> real option"
  defines "r \<equiv> sort_reverse row_amount (rows_of avg (sum_list (map amount xs)) (group_all key [] xs))"
  shows "(0 < sum_list (map amount xs) \<longrightarrow> sum_list (map row_percentage r) = 100)
    \<and> (sum_list (map amount xs) = 0 \<longrightarrow> sum_list (map row_percentage r) = 0)
    \<and> sorted_wrt (\<lambda>a b. row_amount b \<le> row_amount a) r
    \<and> map row_key (filter (\<lambda>a. row_amount a = v) r) =
        filter (\<lambda>k. key_total key k xs = v) (first_seen (map key xs))"
  unfolding r_def
  by (simp add: sum_list_sort_reverse rows_of_percentages group_all_sum sort_reverse_descending
      sort_reverse_stable rows_of_filter_keys)

lemma get_category_breakdown_rows:
  "get_category_breakdown xs =
     sort_reverse row_amount (rows_of (\<lambda>(k, a, c). Some (if 0 < c then a / real c else 0))
        (sum_list (map amount xs)) (group_all category [] xs))"
proof (cases "xs = []")
  case True
  then show ?thesis
    by (simp add: get_category_breakdown_def group_all_def rows_of_def sort_reverse_def)
next
  case False
  then show ?thesis
    by (simp add: get_category_breakdown_def category_loop_group_all rows_of_def)
qed

lemma get_payment_method_breakdown_rows:
  "get_payment_method_breakdown xs =
     sort_reverse row_amount (rows_of (\<lambda>_. None) (sum_list (map amount xs))
        (group_all payment_method [] xs))"
proof (cases "xs = []")
  case True
  then show ?thesis
    by (simp add: get_payment_method_breakdown_def group_all_def rows_of_def sort_reverse_def)
next
  case False
  then show ?thesis
    by (simp add: get_payment_method_breakdown_def rows_of_def Let_def group_all_def)
qed

text \<open>
  C8. For both breakdowns (by category and by payment method) the percentages of the
  groups add up to 100 when the overall total is positive and to 0 when it is 0; the
  groups are in descending order of their amounts; and the groups that share an amount
  appear in the order in which their keys are first seen in the input, each group
  carrying the total of the amounts of its key.
\<close>

theorem breakdown_percentages_and_order:
  "(0 < sum_list (map amount xs) \<longrightarrow>
        sum_list (map row_percentage (get_category_breakdown xs)) = 100
      \<and> sum_list (map row_percentage (get_payment_method_breakdown xs)) = 100)
   \<and> (sum_list (map amount xs) = 0 \<longrightarrow>
        sum_list (map row_percentage (get_category_breakdown xs)) = 0
      \<and> sum_list (map row_percentage (get_payment_method_breakdown xs)) = 0)
   \<and> sorted_wrt (\<lambda>a b. row_amount b \<le> row_amount a) (get_category_breakdown xs)
   \<and> sorted_wrt (\<lambda>a b. row_amount b \<le> row_amount a) (get_payment_method_breakdown xs)
   \<and> map row_key (filter (\<lambda>a. row_amount a = v) (get_category_breakdown xs)) =
        filter (\<lambda>k. key_total category k xs = v) (first_seen (map category xs))
   \<and> map row_key (filter (\<lambda>a. row_amount a = v) (get_payment_method_breakdown xs)) =
        filter (\<lambda>k. key_total payment_method k xs = v) (first_seen (map payment_method xs))"
  using breakdown_core [of xs "\<lambda>(k, a, c). Some (if 0 < c then a / real c else 0)" category v]
    breakdown_core [of xs "\<lambda>_. None" payment_method v]
  by (simp only: get_category_breakdown_rows get_payment_method_breakdown_rows) blast

lemma spec_example_breakdown:
  "get_category_breakdown spec_example =
     [\<lparr>row_key = ''Supplies'', row_amount = 300, row_count = 2, row_percentage = 600 / 7,
        row_average = Some 150\<rparr>,
      \<lparr>row_key = ''Equipment'', row_amount = 50, row_count = 1, row_percentage = 100 / 7,
        row_average = Some 50\<rparr>]"
  by (simp add: get_category_breakdown_def spec_example_def sample_expense_def sort_reverse_def)

theorem breakdown_percentages_and_order_witness:
  "0 < sum_list (map amount spec_example)
   \<and> sum_list (map row_percentage (get_category_breakdown spec_example)) = 100
   \<and> map row_key (get_category_breakdown spec_example) = [''Supplies'', ''Equipment'']
   \<and> sum_list (map amount [sample_expense 0 1]) = 0
   \<and> sum_list (map row_percentage (get_payment_method_breakdown [sample_expense 0 1])) = 0"
proof -
  have pos: "0 < sum_list (map amount spec_example)"
    by (simp add: spec_example_def sample_expense_def)
  have zero: "sum_list (map amount [sample_expense 0 1]) = 0"
    by (simp add: sample_expense_def)
  from pos breakdown_percentages_and_order [of spec_example 0]
  have "sum_list (map row_percentage (get_category_breakdown spec_example)) = 100"
    by blast
  moreover from zero breakdown_percentages_and_order [of "[sample_expense 0 1]" 0]
  have "sum_list (map row_percentage (get_payment_method_breakdown [sample_expense 0 1])) = 0"
    by blast
  ultimately show ?thesis
    using pos zero by (simp add: spec_example_breakdown)
qed

subsection \<open>Soft-deleted records\<close>

text \<open>
  C7, as stated: every aggregation gives the result it gives on the active records of
  its input. \<open>get_category_breakdown\<close> does not look at \<open>is_deleted\<close>: on a list that
  holds one soft-deleted expense it returns a row for it, while the list of the active
  records is empty and gives no row.
\<close>

theorem breakdown_counts_deleted_counterexample:
  "is_deleted deleted_expense
   \<and> active_expenses [deleted_expense] = []
   \<and> get_category_breakdown (active_expenses [deleted_expense]) = []
   \<and> get_category_breakdown [deleted_expense] =
       [\<lparr>row_key = ''Supplies'', row_amount = 40, row_count = 1, row_percentage = 100,
          row_average = Some 40\<rparr>]"
  by (simp add: active_expenses_def get_category_breakdown_def deleted_expense_def
      sample_expense_def sort_reverse_def)

lemma group_add_count_sum:
  "sum_list (map (\<lambda>x. real (snd (snd x))) (group_add k a d)) =
     sum_list (map (\<lambda>x. real (snd (snd x))) d) + 1"
  by (induction d) auto

lemma group_all_count_sum:
  "sum_list (map (\<lambda>x. real (snd (snd x))) (group_all key d xs)) =
     sum_list (map (\<lambda>x. real (snd (snd x))) d) + real (length xs)"
  by (induction xs arbitrary: d) (simp_all add: group_all_def group_add_count_sum)

lemma rows_of_counts:
  "sum_list (map (\<lambda>r. real (row_count r)) (rows_of avg t d)) =
     sum_list (map (\<lambda>x. real (snd (snd x))) d)"
  by (simp add: rows_of_def split_def comp_def)

lemma breakdown_count_category:
  "sum_list (map (\<lambda>r. real (row_count r)) (get_category_breakdown xs)) = real (length xs)"
  by (simp add: get_category_breakdown_rows sum_list_sort_reverse rows_of_counts
      group_all_count_sum)

lemma breakdown_count_payment:
  "sum_list (map (\<lambda>r. real (row_count r)) (get_payment_method_breakdown xs)) = real (length xs)"
  by (simp add: get_payment_method_breakdown_rows sum_list_sort_reverse rows_of_counts
      group_all_count_sum)

lemma filter_same_length: "length (filter P xs) = length xs \<Longrightarrow> filter P xs = xs"
proof -
  assume "length (filter P xs) = length xs"
  moreover have "length (filter P xs) + length (filter (\<lambda>x. \<not> P x) xs) = length xs"
    by (rule sum_length_filter_compl)
  ultimately have "filter (\<lambda>x. \<not> P x) xs = []" by simp
  then show ?thesis by (simp add: filter_empty_conv filter_id_conv)
qed

lemma active_filter: "filter P (active_expenses xs) = filter (\<lambda>e. P e \<and> \<not> is_deleted e) xs"
  by (simp add: active_expenses_def conj_commute)

text \<open>
  C7, amended. Soft-deleted records are excluded by the operations that test
  \<open>is_deleted\<close>: \<open>calculate_spent\<close>, \<open>estimate_monthly_recurring\<close>,
  \<open>get_recurring_expense_summary\<close> and \<open>get_budget_vs_actual\<close> return on every list what they
  return on its active records, and the lists of the period that \<open>generate_monthly_report\<close>
  and \<open>generate_annual_report\<close> build (\<open>month_expenses\<close>, \<open>year_expenses\<close>) hold active
  records only and are the lists built from the active records. The breakdowns
  \<open>get_category_breakdown\<close> and \<open>get_payment_method_breakdown\<close> do not test the flag: their
  result equals the result on the active records exactly when the list holds no
  soft-deleted record.
\<close>

theorem deleted_excluded_where_tested:
  "calculate_spent b xs = calculate_spent b (active_expenses xs)
   \<and> estimate_monthly_recurring xs = estimate_monthly_recurring (active_expenses xs)
   \<and> get_recurring_expense_summary xs = get_recurring_expense_summary (active_expenses xs)
   \<and> get_budget_vs_actual xs budgets = get_budget_vs_actual (active_expenses xs) budgets
   \<and> month_expenses mon xs = month_expenses mon (active_expenses xs)
   \<and> active_expenses (month_expenses mon xs) = month_expenses mon xs
   \<and> year_expenses y xs = year_expenses y (active_expenses xs)
   \<and> active_expenses (year_expenses y xs) = year_expenses y xs
   \<and> (get_category_breakdown xs = get_category_breakdown (active_expenses xs)
        \<longleftrightarrow> active_expenses xs = xs)
   \<and> (get_payment_method_breakdown xs = get_payment_method_breakdown (active_expenses xs)
        \<longleftrightarrow> active_expenses xs = xs)"
proof -
  have spent: "calculate_spent b xs = calculate_spent b (active_expenses xs)"
    by (simp add: calculate_spent_def calculate_spent_loop_sum active_filter)
       (rule arg_cong [where f = "\<lambda>l. sum_list (map amount l)"], rule filter_cong, auto)
  have est: "estimate_monthly_recurring xs = estimate_monthly_recurring (active_expenses xs)"
    by (simp add: estimate_monthly_recurring_def active_filter conj_commute conj_left_commute)
  have rec: "get_recurring_expense_summary xs = get_recurring_expense_summary (active_expenses xs)"
    by (simp add: get_recurring_expense_summary_def active_filter conj_commute conj_left_commute)
  have bva: "get_budget_vs_actual xs budgets = get_budget_vs_actual (active_expenses xs) budgets"
    by (simp add: get_budget_vs_actual_def active_filter conj_commute conj_left_commute)
  have mon1: "month_expenses mon xs = month_expenses mon (active_expenses xs)"
    by (simp add: month_expenses_def Let_def active_filter conj_commute conj_left_commute)
  have yr1: "year_expenses y xs = year_expenses y (active_expenses xs)"
    by (simp add: year_expenses_def Let_def active_filter conj_commute conj_left_commute)
  have mon2: "active_expenses (month_expenses mon xs) = month_expenses mon xs"
    by (simp add: month_expenses_def Let_def active_expenses_def conj_commute conj_left_commute)
  have yr2: "active_expenses (year_expenses y xs) = year_expenses y xs"
    by (simp add: year_expenses_def Let_def active_expenses_def conj_commute conj_left_commute)
  have len: "length (active_expenses xs) = length xs \<Longrightarrow> active_expenses xs = xs"
    unfolding active_expenses_def by (rule filter_same_length)
  have cat: "get_category_breakdown xs = get_category_breakdown (active_expenses xs)
      \<longleftrightarrow> active_expenses xs = xs"
  proof
    assume "get_category_breakdown xs = get_category_breakdown (active_expenses xs)"
    then have "sum_list (map (\<lambda>r. real (row_count r)) (get_category_breakdown xs)) =
        sum_list (map (\<lambda>r. real (row_count r)) (get_category_breakdown (active_expenses xs)))"
      by simp
    then have "real (length xs) = real (length (active_expenses xs))"
      by (simp only: breakdown_count_category)
    then have "length (active_expenses xs) = length xs" by simp
    then show "active_expenses xs = xs" by (rule len)
  next
    assume "active_expenses xs = xs"
    then show "get_category_breakdown xs = get_category_breakdown (active_expenses xs)" by simp
  qed
  have pay: "get_payment_method_breakdown xs = get_payment_method_breakdown (active_expenses xs)
      \<longleftrightarrow> active_expenses xs = xs"
  proof
    assume "get_payment_method_breakdown xs = get_payment_method_breakdown (active_expenses xs)"
    then have "sum_list (map (\<lambda>r. real (row_count r)) (get_payment_method_breakdown xs)) =
        sum_list (map (\<lambda>r. real (row_count r))
          (get_payment_method_breakdown (active_expenses xs)))"
      by simp
    then have "real (length xs) = real (length (active_expenses xs))"
      by (simp only: breakdown_count_payment)
    then have "length (active_expenses xs) = length xs" by simp
    then show "active_expenses xs = xs" by (rule len)
  next
    assume "active_expenses xs = xs"
    then show "get_payment_method_breakdown xs = get_payment_method_breakdown (active_expenses xs)"
      by simp
  qed
  from spent est rec bva mon1 mon2 yr1 yr2 cat pay show ?thesis by simp
qed

theorem deleted_excluded_where_tested_witness:
  "active_expenses [deleted_expense, sample_expense 100 2] \<noteq> [deleted_expense, sample_expense 100 2]
   \<and> get_category_breakdown [deleted_expense, sample_expense 100 2] \<noteq>
       get_category_breakdown (active_expenses [deleted_expense, sample_expense 100 2])
   \<and> active_expenses [sample_expense 100 2] = [sample_expense 100 2]
   \<and> get_payment_method_breakdown [sample_expense 100 2] =
       get_payment_method_breakdown (active_expenses [sample_expense 100 2])
   \<and> calculate_spent sample_budget [deleted_expense, sample_expense 100 2] =
       calculate_spent sample_budget [sample_expense 100 2]"
proof -
  have a: "active_expenses [deleted_expense, sample_expense 100 2] = [sample_expense 100 2]"
    by (simp add: active_expenses_def deleted_expense_def sample_expense_def)
  have b: "active_expenses [sample_expense 100 2] = [sample_expense 100 2]"
    by (simp add: active_expenses_def sample_expense_def)
  note t1 = deleted_excluded_where_tested
      [of sample_budget "[deleted_expense, sample_expense 100 2]" "[]" jan1 2024]
  note t2 = deleted_excluded_where_tested [of sample_budget "[sample_expense 100 2]" "[]" jan1 2024]
  from t1 a have "get_category_breakdown [deleted_expense, sample_expense 100 2] \<noteq>
       get_category_breakdown (active_expenses [deleted_expense, sample_expense 100 2])"
    by simp
  moreover from t2 b have "get_payment_method_breakdown [sample_expense 100 2] =
       get_payment_method_breakdown (active_expenses [sample_expense 100 2])"
    by simp
  moreover from t1 a have "calculate_spent sample_budget [deleted_expense, sample_expense 100 2] =
       calculate_spent sample_budget [sample_expense 100 2]"
    by simp
  ultimately show ?thesis using a b by simp
qed

subsection \<open>Round trip through the row\<close>

lemma split_comma_nonempty: "split_comma t \<noteq> []"
  by (induction t) (auto split: list.splits)

lemma split_comma_no_comma: "CHR '','' \<notin> set t \<Longrightarrow> split_comma t = [t]"
  by (induction t) auto

lemma split_comma_append:
  "CHR '','' \<notin> set t \<Longrightarrow> split_comma (t @ CHR '','' # rest) = t # split_comma rest"
  by (induction t) auto

lemma split_join:
  "ts \<noteq> [] \<Longrightarrow> list_all (\<lambda>t. CHR '','' \<notin> set t) ts \<Longrightarrow> split_comma (join_comma ts) = ts"
  by (induction ts rule: join_comma.induct) (simp_all add: split_comma_no_comma split_comma_append)

lemma strip_plain: "plain_tag t \<Longrightarrow> strip t = t"
proof -
  assume p: "plain_tag t"
  then obtain c cs where t: "t = c # cs" by (cases t) (auto simp: plain_tag_def)
  with p have 1: "dropWhile is_space t = t" by (simp add: plain_tag_def)
  from p have "rev t \<noteq> []" "\<not> is_space (hd (rev t))"
    by (simp_all add: plain_tag_def hd_rev)
  then have 2: "dropWhile is_space (rev t) = rev t"
    by (cases "rev t") auto
  show ?thesis by (simp add: strip_def 1 2)
qed

lemma parse_join:
  assumes "list_all plain_tag ts"
  shows "parse_tags (if ts \<noteq> [] then join_comma ts else []) = ts"
proof (cases "ts = []")
  case True
  then show ?thesis by (simp add: parse_tags_def strip_def)
next
  case False
  from assms have nc: "list_all (\<lambda>t. CHR '','' \<notin> set t) ts"
    by (simp add: list_all_iff plain_tag_def)
  from assms have st: "\<And>t. t \<in> set ts \<Longrightarrow> strip t = t \<and> t \<noteq> []"
    by (auto simp: list_all_iff strip_plain plain_tag_def)
  have "filter (\<lambda>w. strip w \<noteq> []) ts = ts"
    using st by (simp add: filter_id_conv)
  moreover have "map strip ts = ts"
    using st by (simp add: map_idI)
  ultimately show ?thesis
    using False by (simp add: parse_tags_def split_join [OF False nc])
qed

text \<open>
  C10, as stated: the round trip gives back the record, up to the truncation to the day
  of the three fields whose cells hold a date only. The cells of \<open>created_at\<close>,
  \<open>updated_at\<close> and \<open>deleted_at\<close> hold whole seconds: a valid record created a quarter
  of a second after midnight comes back with \<open>created_at\<close> at midnight, although its
  row keeps the time of day of that field.
\<close>

theorem roundtrip_drops_microseconds_counterexample:
  "validate (jan1\<lparr>year := 2025\<rparr>) stamped_expense = []
   \<and> created_at stamped_expense = jan1\<lparr>microsecond := 250000\<rparr>
   \<and> created_at (from_dict ''fresh'' (to_dict stamped_expense)) = jan1
   \<and> from_dict ''fresh'' (to_dict stamped_expense) \<noteq>
       stamped_expense\<lparr>date := to_day (date stamped_expense),
         next_due_date := map_option to_day (next_due_date stamped_expense),
         last_recurring_date := map_option to_day (last_recurring_date stamped_expense)\<rparr>"
proof -
  have v: "validate (jan1\<lparr>year := 2025\<rparr>) stamped_expense = []"
    by (simp add: validate_def stamped_expense_def sample_expense_def jan1_def dt_key_def)
  have c: "created_at stamped_expense = jan1\<lparr>microsecond := 250000\<rparr>"
    by (simp add: stamped_expense_def)
  have r: "created_at (from_dict ''fresh'' (to_dict stamped_expense)) = jan1"
    by (simp add: from_dict_def to_dict_def stamped_expense_def jan1_def
        strptime_seconds_def strftime_seconds_def)
  have "from_dict ''fresh'' (to_dict stamped_expense) \<noteq>
       stamped_expense\<lparr>date := to_day (date stamped_expense),
         next_due_date := map_option to_day (next_due_date stamped_expense),
         last_recurring_date := map_option to_day (last_recurring_date stamped_expense)\<rparr>"
  proof
    assume "from_dict ''fresh'' (to_dict stamped_expense) =
       stamped_expense\<lparr>date := to_day (date stamped_expense),
         next_due_date := map_option to_day (next_due_date stamped_expense),
         last_recurring_date := map_option to_day (last_recurring_date stamped_expense)\<rparr>"
    then have "created_at (from_dict ''fresh'' (to_dict stamped_expense)) =
        created_at stamped_expense"
      by simp
    with r c show False by (simp add: jan1_def)
  qed
  with v c r show ?thesis by simp
qed

text \<open>
  C10, amended. For a record whose id is not empty, whose optional texts are not the
  empty text, and whose tags are not empty, hold no comma and neither start nor end
  with white space, serialising with \<open>to_dict\<close> and parsing with \<open>from_dict\<close> gives back the
  record in all fields, with \<open>date\<close>, \<open>next_due_date\<close> and \<open>last_recurring_date\<close> truncated
  to the day and \<open>deleted_at\<close>, \<open>created_at\<close> and \<open>updated_at\<close> truncated to whole seconds.
\<close>

theorem roundtrip_normalises_dates_and_stamps:
  assumes "expense_id e \<noteq> []" and "list_all plain_tag (tags e)"
    and "recurring_type e \<noteq> Some []" and "recurring_action e \<noteq> Some []"
    and "recurring_parent_id e \<noteq> Some []"
  shows "from_dict fresh_uuid (to_dict e) =
           e\<lparr>date := to_day (date e),
             next_due_date := map_option to_day (next_due_date e),
             last_recurring_date := map_option to_day (last_recurring_date e),
             deleted_at := map_option to_second (deleted_at e),
             created_at := to_second (created_at e),
             updated_at := to_second (updated_at e)\<rparr>"
proof -
  have day: "parse_date (dt_date d) = to_day d" for d
    by (simp add: parse_date_def dt_date_def to_day_def)
  have sec: "strptime_seconds (strftime_seconds d) = to_second d" for d
    by (simp add: strptime_seconds_def strftime_seconds_def to_second_def)
  have opt: "x \<noteq> Some [] \<Longrightarrow> empty_to_None (opt_or_empty x) = x" for x
    by (cases x) (simp_all add: empty_to_None_def opt_or_empty_def)
  show ?thesis
    using assms
    by (simp add: from_dict_def to_dict_def day sec opt parse_join str_or_def
        option.map_comp comp_def)
qed

theorem roundtrip_normalises_dates_and_stamps_witness:
  "expense_id stamped_expense \<noteq> [] \<and> list_all plain_tag (tags stamped_expense)
   \<and> recurring_type stamped_expense \<noteq> Some [] \<and> recurring_action stamped_expense \<noteq> Some []
   \<and> recurring_parent_id stamped_expense \<noteq> Some []
   \<and> from_dict ''fresh'' (to_dict stamped_expense) =
       stamped_expense\<lparr>date := jan1\<lparr>day := 2\<rparr>, created_at := jan1\<rparr>"
proof -
  have h: "expense_id stamped_expense \<noteq> []" "list_all plain_tag (tags stamped_expense)"
    "recurring_type stamped_expense \<noteq> Some []" "recurring_action stamped_expense \<noteq> Some []"
    "recurring_parent_id stamped_expense \<noteq> Some []"
    by (simp_all add: stamped_expense_def sample_expense_def plain_tag_def is_space_def)
  have "stamped_expense\<lparr>date := to_day (date stamped_expense),
             next_due_date := map_option to_day (next_due_date stamped_expense),
             last_recurring_date := map_option to_day (last_recurring_date stamped_expense),
             deleted_at := map_option to_second (deleted_at stamped_expense),
             created_at := to_second (created_at stamped_expense),
             updated_at := to_second (updated_at stamped_expense)\<rparr> =
        stamped_expense\<lparr>date := jan1\<lparr>day := 2\<rparr>, created_at := jan1\<rparr>"
    by (simp add: stamped_expense_def sample_expense_def jan1_def to_day_def to_second_def)
  with roundtrip_normalises_dates_and_stamps [OF h, of "''fresh''"] h show ?thesis
    by simp
qed

subsection \<open>Trends\<close>

lemma days_in_month_bounds: "28 \<le> days_in_month y m \<and> days_in_month y m \<le> 31"
  by (simp add: days_in_month_def)

lemma days_in_month_pos: "1 \<le> days_in_month y m"
  by (simp add: days_in_month_def)

lemma valid_next_day: "valid_date d \<Longrightarrow> valid_date (next_day d)"
  by (auto simp: valid_date_def next_day_def days_in_month_pos split: prod.splits)

lemma days_in_december: "days_in_month y 12 = 31"
  by (simp add: days_in_month_def)

lemma valid_prev_day: "valid_date d \<Longrightarrow> valid_date (prev_day d)"
  by (auto simp: valid_date_def prev_day_def days_in_month_pos days_in_december split: prod.splits)

lemma next_prev_day: "valid_date d \<Longrightarrow> next_day (prev_day d) = d"
  by (auto simp: valid_date_def prev_day_def next_day_def days_in_month_def split: prod.splits)

lemma less_next_day: "valid_date d \<Longrightarrow> d < next_day d"
  by (auto simp: valid_date_def next_day_def split: prod.splits)

lemma prev_day_less: "valid_date d \<Longrightarrow> prev_day d < d"
  by (auto simp: valid_date_def prev_day_def split: prod.splits)

lemma valid_funpow_prev: "valid_date d \<Longrightarrow> valid_date ((prev_day ^^ n) d)"
  by (induction n) (simp_all add: valid_prev_day)

lemma valid_funpow_next: "valid_date d \<Longrightarrow> valid_date ((next_day ^^ n) d)"
  by (induction n) (simp_all add: valid_next_day)

lemma funpow_prev_le: "valid_date d \<Longrightarrow> (prev_day ^^ n) d \<le> d"
proof (induction n)
  case 0
  then show ?case by simp
next
  case (Suc n)
  have "prev_day ((prev_day ^^ n) d) < (prev_day ^^ n) d"
    using Suc.prems by (simp add: prev_day_less valid_funpow_prev)
  with Suc show ?case by (simp add: less_le_trans less_imp_le)
qed

lemma funpow_next_ge: "valid_date d \<Longrightarrow> d \<le> (next_day ^^ n) d"
proof (induction n)
  case 0
  then show ?case by simp
next
  case (Suc n)
  have "(next_day ^^ n) d < next_day ((next_day ^^ n) d)"
    using Suc.prems by (simp add: less_next_day valid_funpow_next)
  with Suc show ?case by (simp add: le_less_trans less_imp_le)
qed

lemma next_funpow_prev: "valid_date d \<Longrightarrow> (next_day ^^ n) ((prev_day ^^ n) d) = d"
proof (induction n)
  case 0
  then show ?case by simp
next
  case (Suc n)
  have "(next_day ^^ Suc n) ((prev_day ^^ Suc n) d) =
      (next_day ^^ n) (next_day (prev_day ((prev_day ^^ n) d)))"
    by (simp add: funpow_swap1)
  also have "\<dots> = (next_day ^^ n) ((prev_day ^^ n) d)"
    using Suc.prems by (simp add: next_prev_day valid_funpow_prev)
  finally show ?case using Suc by simp
qed

lemma dt_le_same_time:
  "time_of_day a = time_of_day b \<Longrightarrow> dt_le a b \<longleftrightarrow> dt_date a \<le> dt_date b"
  by (auto simp: dt_le_def dt_key_def dt_date_def time_of_day_def)

lemma add_days_date: "dt_date (add_days n dt) = date_add_days n (dt_date dt)"
  by (simp add: add_days_def set_date_def dt_date_def split: prod.splits)

lemma add_days_time: "time_of_day (add_days n dt) = time_of_day dt"
  by (simp add: add_days_def set_date_def time_of_day_def split: prod.splits)

lemma date_add_one: "date_add_days 1 d = next_day d"
  by (simp add: date_add_days_def)

lemma date_sub_days: "0 \<le> n \<Longrightarrow> date_add_days (- n) d = (prev_day ^^ nat n) d"
  by (cases "n = 0") (simp_all add: date_add_days_def)

lemma upt_Suc_shift: "[0..<Suc (Suc n)] = 0 # map Suc [0..<Suc n]"
  by (simp only: map_Suc_upt upt_conv_Cons [of 0 "Suc (Suc n)"])

lemma daily_loop_Some:
  assumes "valid_date (dt_date cur)" and "(next_day ^^ n) (dt_date cur) = dt_date en"
    and "time_of_day cur = time_of_day en"
  shows "daily_loop d cur en acc =
           Some (acc @ map (row_of d) (map (\<lambda>i. (next_day ^^ i) (dt_date cur)) [0..<Suc n]))"
  using assms
proof (induction n arbitrary: cur acc)
  case 0
  then have same: "dt_date cur = dt_date en" by simp
  with 0 have le: "dt_le cur en" by (simp add: dt_le_same_time)
  have "dt_date en < dt_date (add_days 1 cur)"
    using 0 same by (simp add: add_days_date date_add_one less_next_day)
  then have nle: "\<not> dt_le (add_days 1 cur) en"
    using 0 by (simp add: dt_le_same_time add_days_time)
  show ?case
    by (subst daily_loop.simps, simp add: le, subst daily_loop.simps, simp add: nle row_of_def)
next
  case (Suc n)
  let ?c = "add_days 1 cur"
  have v: "valid_date (dt_date ?c)"
    using Suc.prems by (simp add: add_days_date date_add_one valid_next_day)
  have e: "(next_day ^^ n) (dt_date ?c) = dt_date en"
    using Suc.prems by (simp add: add_days_date date_add_one funpow_swap1)
  have t: "time_of_day ?c = time_of_day en"
    using Suc.prems by (simp add: add_days_time)
  have "dt_date cur \<le> (next_day ^^ Suc n) (dt_date cur)"
    using Suc.prems(1) by (rule funpow_next_ge)
  with Suc.prems have le: "dt_le cur en" by (simp add: dt_le_same_time)
  have shift: "map (\<lambda>i. (next_day ^^ i) (dt_date cur)) [0..<Suc (Suc n)] =
      dt_date cur # map (\<lambda>i. (next_day ^^ i) (dt_date ?c)) [0..<Suc n]"
    by (simp only: upt_Suc_shift)
       (simp add: add_days_date date_add_one funpow_swap1 comp_def del: upt_Suc)
  show ?case
    by (subst daily_loop.simps)
       (simp only: le if_True Suc.IH [OF v e t] shift, simp add: row_of_def)
qed

lemma month_of_index_key:
  "1 \<le> month dt \<Longrightarrow> month dt \<le> 12 \<Longrightarrow> month_of_index (month_index dt) = month_key dt"
proof -
  assume "1 \<le> month dt" "month dt \<le> 12"
  then have "(12 * year dt + month dt - 1) div 12 = year dt
      \<and> (12 * year dt + month dt - 1) mod 12 + 1 = month dt"
    by presburger
  then show ?thesis
    by (simp add: month_of_index_def month_index_def month_key_def)
qed

lemma dt_le_month_index:
  assumes "day cur = 1" "1 \<le> month cur" "month cur \<le> 12" "1 \<le> day en" "1 \<le> month en"
    "month en \<le> 12" "time_of_day cur = time_of_day en"
  shows "dt_le cur en \<longleftrightarrow> month_index cur \<le> month_index en"
  using assms
  by (auto simp: dt_le_def dt_key_def time_of_day_def month_index_def)

lemma monthly_loop_Inr:
  assumes "day cur = 1" "1 \<le> month cur" "month cur \<le> 12" "1 \<le> day en" "1 \<le> month en"
    "month en \<le> 12" "time_of_day cur = time_of_day en"
  shows "monthly_loop d cur en acc =
           Inr (acc @ map (row_of d) (map month_of_index [month_index cur..month_index en]))"
  using assms
proof (induction "nat (month_index en + 1 - month_index cur)" arbitrary: cur acc)
  case 0
  then have "\<not> month_index cur \<le> month_index en" by simp
  with 0 have "\<not> dt_le cur en" by (simp add: dt_le_month_index)
  moreover have "[month_index cur..month_index en] = []"
    using \<open>\<not> month_index cur \<le> month_index en\<close> by simp
  ultimately show ?case
    by (subst monthly_loop.simps) simp
next
  case (Suc k)
  then have le: "month_index cur \<le> month_index en" by simp
  with Suc.prems have dle: "dt_le cur en" by (simp add: dt_le_month_index)
  define nxt where "nxt = (if month cur = 12 then cur\<lparr>year := year cur + 1, month := 1\<rparr>
      else cur\<lparr>month := month cur + 1\<rparr>)"
  have idx: "month_index nxt = month_index cur + 1"
    by (simp add: nxt_def month_index_def)
  have nprops: "day nxt = 1" "1 \<le> month nxt" "month nxt \<le> 12"
    "time_of_day nxt = time_of_day en"
    using Suc.prems by (auto simp: nxt_def time_of_day_def)
  have k: "k = nat (month_index en + 1 - month_index nxt)"
    using Suc.hyps(2) idx by simp
  have ih: "monthly_loop d nxt en acc' =
      Inr (acc' @ map (row_of d) (map month_of_index [month_index nxt..month_index en]))" for acc'
    by (rule Suc.hyps(1) [OF k nprops(1-3) Suc.prems(4-6) nprops(4)])
  have step: "monthly_loop d cur en acc = monthly_loop d nxt en (acc @ [row_of d (month_key cur)])"
    using Suc.prems dle
    by (subst monthly_loop.simps) (auto simp: nxt_def Let_def row_of_def)
  have "[month_index cur..month_index en] = month_index cur # [month_index nxt..month_index en]"
    using le idx by (simp add: upto_rec1)
  then show ?case
    using Suc.prems by (simp add: step ih month_of_index_key)
qed

lemma cnt_of_group_add:
  "cnt_of (group_add k' a d) k = (if k = k' then cnt_of d k + 1 else cnt_of d k)"
  by (simp add: cnt_of_def group_add_map_of split: option.splits)

lemma group_all_cnt:
  "cnt_of (group_all key d xs) k = cnt_of d k + length (filter (\<lambda>e. key e = k) xs)"
proof (induction xs arbitrary: d)
  case Nil
  then show ?case by (simp add: group_all_def)
next
  case (Cons x xs)
  show ?case
    unfolding group_all_Cons Cons.IH
    by (simp add: cnt_of_group_add)
qed

lemma dict_get_amt_cnt: "dict_get d k = (amt_of d k, cnt_of d k)"
  by (simp add: dict_get_def amt_of_def cnt_of_def split: option.splits)

lemma amt_cnt_Nil: "amt_of [] k = 0" "cnt_of [] k = 0"
  by (simp_all add: amt_of_def cnt_of_def)

lemma row_of_bucket: "row_of (group_all key [] xs) = bucket key xs"
  by (rule ext)
     (simp add: row_of_def bucket_def dict_get_amt_cnt group_all_amt group_all_cnt amt_cnt_Nil)

lemma start_date_facts:
  assumes "valid_date (dt_date now)" and "0 \<le> n"
  shows "valid_date (dt_date (add_days (- n) now))"
    and "(next_day ^^ nat n) (dt_date (add_days (- n) now)) = dt_date now"
    and "time_of_day (add_days (- n) now) = time_of_day now"
    and "dt_date (add_days (- n) now) \<le> dt_date now"
  using assms
  by (simp_all add: add_days_date date_sub_days valid_funpow_prev next_funpow_prev add_days_time
      funpow_prev_le)

lemma month_index_mono:
  assumes "valid_date (dt_date a)" "valid_date (dt_date b)" "dt_date a \<le> dt_date b"
  shows "month_index a \<le> month_index b"
  using assms
  by (auto simp: valid_date_def dt_date_def month_index_def)

lemma length_group_add: "length (group_add k a d) \<le> Suc (length d)"
  by (induction d) auto

lemma length_group_all: "length (group_all key d xs) \<le> length d + length xs"
proof (induction xs arbitrary: d)
  case Nil
  then show ?case by (simp add: group_all_def)
next
  case (Cons x xs)
  have "length (group_all key (group_add (key x) (amount x) d) xs)
      \<le> length (group_add (key x) (amount x) d) + length xs"
    by (rule Cons.IH)
  also have "\<dots> \<le> Suc (length d) + length xs"
    using length_group_add [of "key x" "amount x" d] by simp
  finally show ?case by (simp add: group_all_Cons)
qed

lemma weekly_trend_not_filled:
  "length (get_weekly_trend week_key now expenses weeks) \<le> length expenses"
proof (cases "expenses = []")
  case True
  then show ?thesis by (simp add: get_weekly_trend_def)
next
  case False
  let ?f = "filter (\<lambda>e. dt_le (add_days (- (weeks * 7)) now) (date e)) expenses"
  have "length (get_weekly_trend week_key now expenses weeks) =
      length (group_all (\<lambda>e. week_key (date e)) [] ?f)"
    using False by (simp add: get_weekly_trend_def Let_def group_all_def)
  also have "\<dots> \<le> length ?f"
    using length_group_all [of "\<lambda>e. week_key (date e)" "[]" ?f] by simp
  also have "\<dots> \<le> length expenses" by simp
  finally show ?thesis .
qed

lemma march2_start: "dt_date (add_days (- 3) march2) = (2024, 2, 28)"
  by (simp only: add_days_date)
     (simp add: date_add_days_def march2_def dt_date_def prev_day_def
        days_in_month_def is_leap_def eval_nat_numeral)

text \<open>
  C2, as stated: the trends return one bucket per calendar unit of the range also for
  an empty list of records. Both \<open>get_daily_trend\<close> and \<open>get_monthly_trend\<close> start with
  \<open>if not expenses: return []\<close>: on 2 March 2024 the daily trend over 3 days ranges
  over the four days from 28 February to 2 March, and the result for the empty list has
  no bucket at all.
\<close>

theorem trend_empty_counterexample:
  "get_daily_trend march2 [] 3 = Some []
   \<and> get_monthly_trend march2 [] 1 = Inr []
   \<and> valid_date (dt_date march2)
   \<and> dt_date (add_days (- 3) march2) = (2024, 2, 28)
   \<and> dt_date march2 = (2024, 3, 2)"
  using march2_start
  by (simp add: get_daily_trend_def get_monthly_trend_def)
     (simp add: march2_def dt_date_def valid_date_def days_in_month_def)

text \<open>
  C2, amended. For a list of records that is not empty, \<open>get_daily_trend\<close> returns one
  bucket for each day from \<open>now - days\<close> to \<open>now\<close> (\<open>days + 1\<close> buckets, the last one today),
  and \<open>get_monthly_trend\<close> returns one bucket for each calendar month from the month of
  \<open>now - 30 * months\<close> days to the month of \<open>now\<close>, in ascending order. Each bucket holds the
  total and the number of the records of the window that fall into it, hence zero and
  zero where there is none. Both loops end.
\<close>

theorem trend_buckets:
  assumes "expenses \<noteq> []" and "valid_date (dt_date now)" and "0 \<le> days" and "0 \<le> months"
  shows "get_daily_trend now expenses days =
           Some (map (bucket (\<lambda>e. dt_date (date e)) (in_window (add_days (- days) now) expenses))
                  (map (\<lambda>i. (next_day ^^ i) (dt_date (add_days (- days) now))) [0..<nat days + 1]))
       \<and> (next_day ^^ nat days) (dt_date (add_days (- days) now)) = dt_date now
       \<and> get_monthly_trend now expenses months =
           Inr (map (bucket (\<lambda>e. month_key (date e))
                      (in_window (add_days (- (months * 30)) now) expenses))
                  (map month_of_index
                     [month_index (add_days (- (months * 30)) now)..month_index now]))
       \<and> month_index (add_days (- (months * 30)) now) \<le> month_index now"
proof -
  let ?sd = "add_days (- days) now"
  let ?sm = "add_days (- (months * 30)) now"
  have m30: "0 \<le> months * 30" using assms(4) by simp
  note sd = start_date_facts [OF assms(2) assms(3)]
  note sm = start_date_facts [OF assms(2) m30]
  have daily: "get_daily_trend now expenses days =
      daily_loop (group_all (\<lambda>e. dt_date (date e)) [] (in_window ?sd expenses)) ?sd now []"
    using assms(1) by (simp add: get_daily_trend_def Let_def group_all_def in_window_def)
  have d: "get_daily_trend now expenses days =
      Some (map (bucket (\<lambda>e. dt_date (date e)) (in_window ?sd expenses))
             (map (\<lambda>i. (next_day ^^ i) (dt_date ?sd)) [0..<nat days + 1]))"
    unfolding daily
    by (subst daily_loop_Some [OF sd(1) sd(2) sd(3)]) (simp add: row_of_bucket)
  have vm: "1 \<le> month ?sm" "month ?sm \<le> 12"
    using sm(1) by (simp_all add: valid_date_def dt_date_def)
  have vn: "1 \<le> day now" "1 \<le> month now" "month now \<le> 12"
    using assms(2) by (simp_all add: valid_date_def dt_date_def)
  have monthly: "get_monthly_trend now expenses months =
      monthly_loop (group_all (\<lambda>e. month_key (date e)) [] (in_window ?sm expenses))
        (?sm\<lparr>day := 1\<rparr>) now []"
    using assms(1) by (simp add: get_monthly_trend_def Let_def group_all_def in_window_def)
  have tm: "time_of_day (?sm\<lparr>day := 1\<rparr>) = time_of_day now"
    using sm(3) by (simp add: time_of_day_def)
  have mi: "month_index (?sm\<lparr>day := 1\<rparr>) = month_index ?sm"
    by (simp add: month_index_def)
  have m: "get_monthly_trend now expenses months =
      Inr (map (bucket (\<lambda>e. month_key (date e)) (in_window ?sm expenses))
            (map month_of_index [month_index ?sm..month_index now]))"
    unfolding monthly
    using vm vn tm
    by (subst monthly_loop_Inr) (simp_all add: row_of_bucket mi)
  have "month_index ?sm \<le> month_index now"
    using sm(1) assms(2) sm(4) by (rule month_index_mono)
  with d sd(2) m show ?thesis by simp
qed

theorem trend_buckets_witness:
  "[sample_expense 70 20] \<noteq> [] \<and> valid_date (dt_date march2) \<and> (0::int) \<le> 3 \<and> (0::int) \<le> 1
   \<and> map_option (map t_key) (get_daily_trend march2 [sample_expense 70 20] 3) =
       Some [(2024, 2, 28), (2024, 2, 29), (2024, 3, 1), (2024, 3, 2)]
   \<and> map_option (map t_amount) (get_daily_trend march2 [sample_expense 70 20] 3) =
       Some [0, 0, 0, 0]"
proof -
  have v: "valid_date (dt_date march2)"
    by (simp add: march2_def dt_date_def valid_date_def days_in_month_def)
  have ne: "[sample_expense 70 20] \<noteq> []" by simp
  have w: "in_window (add_days (- 3) march2) [sample_expense 70 20] = []"
    using march2_start
    by (simp add: in_window_def dt_le_def dt_key_def sample_expense_def jan1_def dt_date_def)
  have keys: "map (\<lambda>i. (next_day ^^ i) (2024, 2, 28)) [0..<nat 3 + 1] =
      [(2024, 2, 28), (2024, 2, 29), (2024, 3, 1), (2024, 3, 2)]"
    by (simp add: eval_nat_numeral next_day_def days_in_month_def is_leap_def upt_rec)
  from trend_buckets [OF ne v, of 3 1]
  have "get_daily_trend march2 [sample_expense 70 20] 3 =
      Some (map (bucket (\<lambda>e. dt_date (date e)) [])
             [(2024, 2, 28), (2024, 2, 29), (2024, 3, 1), (2024, 3, 2)])"
    by (simp only: w march2_start keys)
  then show ?thesis
    using v by (simp add: bucket_def key_total_def)
qed


end
